theory Spec2Isabelle
  imports Main "HOL-Library.AList"
begin

section \<open>Python values\<close>

text \<open>
  The scripts work on decoded JSON: the issue record, the destination page, the schema and
  the two configuration maps are all results of \<^verbatim>\<open>json.loads\<close> / \<^verbatim>\<open>r.json()\<close>.
  A Python \<^verbatim>\<open>dict\<close> is an association list in insertion order, read with \<open>map_of\<close>
  and written with \<open>AList.update\<close> (an existing key keeps its place, a new key goes to the
  end, as in Python); keys of one dict are distinct. JSON numbers are integers here
  (floats are outside the model). A Python \<^verbatim>\<open>str\<close> is a \<open>string\<close> whose characters
  are the code points 0 to 255; \<^verbatim>\<open>lower\<close>, \<^verbatim>\<open>strip\<close> are Python's on
  that range, and lengths count code points.
\<close>

datatype json =
    JNull
  | JBool bool
  | JNum int
  | JStr string
  | JArr "json list"
  | JObj "(string \<times> json) list"

datatype py_error = TypeError | AttributeError | KeyError | IndexError

type_synonym pydict = "(string \<times> json) list"

definition bind_err :: "py_error + 'a \<Rightarrow> ('a \<Rightarrow> py_error + 'b) \<Rightarrow> py_error + 'b" where
  "bind_err m f = (case m of Inl e \<Rightarrow> Inl e | Inr v \<Rightarrow> f v)"

fun py_truthy :: "json \<Rightarrow> bool" where
  "py_truthy JNull = False"
| "py_truthy (JBool b) = b"
| "py_truthy (JNum n) = (n \<noteq> 0)"
| "py_truthy (JStr s) = (s \<noteq> [])"
| "py_truthy (JArr xs) = (xs \<noteq> [])"
| "py_truthy (JObj kvs) = (kvs \<noteq> [])"

text \<open>\<^verbatim>\<open>d.get(k, default)\<close> on a value known to be a dict.\<close>

definition get_d :: "pydict \<Rightarrow> string \<Rightarrow> json \<Rightarrow> json" where
  "get_d d k dflt = (case map_of d k of Some v \<Rightarrow> v | None \<Rightarrow> dflt)"

text \<open>\<^verbatim>\<open>x.get(k, default)\<close> on any value: only a dict has \<^verbatim>\<open>get\<close>.\<close>

fun py_get :: "json \<Rightarrow> string \<Rightarrow> json \<Rightarrow> py_error + json" where
  "py_get (JObj d) k dflt = Inr (get_d d k dflt)"
| "py_get _ k dflt = Inl AttributeError"

text \<open>\<^verbatim>\<open>props.update(d)\<close> and \<^verbatim>\<open>props[k] = v\<close>.\<close>

definition dict_update :: "pydict \<Rightarrow> pydict \<Rightarrow> pydict" where
  "dict_update props d = fold (\<lambda>(k, v). AList.update k v) d props"

section \<open>Python string operations\<close>

definition py_lower_char :: "char \<Rightarrow> char" where
  "py_lower_char c =
     (let n = (of_char c :: nat)
      in if (65 \<le> n \<and> n \<le> 90) \<or> (192 \<le> n \<and> n \<le> 222 \<and> n \<noteq> 215)
         then char_of (n + 32) else c)"

definition py_lower :: "string \<Rightarrow> string" where
  "py_lower s = map py_lower_char s"

definition py_isspace :: "char \<Rightarrow> bool" where
  "py_isspace c =
     (let n = (of_char c :: nat)
      in (9 \<le> n \<and> n \<le> 13) \<or> (28 \<le> n \<and> n \<le> 32) \<or> n = 133 \<or> n = 160)"

definition py_strip :: "string \<Rightarrow> string" where
  "py_strip s = rev (dropWhile py_isspace (rev (dropWhile py_isspace s)))"

definition py_startswith :: "string \<Rightarrow> string \<Rightarrow> bool" where
  "py_startswith s p = (take (length p) s = p)"

text \<open>\<^verbatim>\<open>c in s\<close> for a one-character needle.\<close>

definition has_char :: "char \<Rightarrow> string \<Rightarrow> bool" where
  "has_char c s = (c \<in> set s)"

text \<open>\<^verbatim>\<open>s.split(c, 1)\<close> when \<open>c\<close> occurs in \<open>s\<close>: the two parts around the first \<open>c\<close>.\<close>

definition split1_head :: "char \<Rightarrow> string \<Rightarrow> string" where
  "split1_head c s = takeWhile (\<lambda>x. x \<noteq> c) s"

definition split1_tail :: "char \<Rightarrow> string \<Rightarrow> string" where
  "split1_tail c s = tl (dropWhile (\<lambda>x. x \<noteq> c) s)"

text \<open>\<^verbatim>\<open>s.split(c)\<close>: all the parts; the empty string gives one empty part.\<close>

fun py_split :: "char \<Rightarrow> string \<Rightarrow> string list" where
  "py_split c [] = [[]]"
| "py_split c (x # xs) =
     (if x = c then [] # py_split c xs
      else (case py_split c xs of [] \<Rightarrow> [[x]] | w # ws \<Rightarrow> (x # w) # ws))"

definition py_rstrip_char :: "char \<Rightarrow> string \<Rightarrow> string" where
  "py_rstrip_char c s = rev (dropWhile (\<lambda>x. x = c) (rev s))"

text \<open>\<^verbatim>\<open>sep.join(xs)\<close> on strings.\<close>

fun py_join :: "string \<Rightarrow> string list \<Rightarrow> string" where
  "py_join sep [] = []"
| "py_join sep [x] = x"
| "py_join sep (x # y # ys) = x @ sep @ py_join sep (y # ys)"

section \<open>Label parsing\<close>

text \<open>
  \<^verbatim>\<open>parse_label_map\<close> (notion\_sync.py 157--163, issue\_to\_notion.py 114--120, the same
  text in both). The labels are the values of \<^verbatim>\<open>l.get("name")\<close>, so any JSON value can
  arrive: \<^verbatim>\<open>":" in l\<close> raises TypeError on null, a number or a boolean, tests
  membership on a list and key membership on a dict; \<^verbatim>\<open>l.split\<close> exists on strings only.
\<close>

fun colon_in :: "json \<Rightarrow> py_error + bool" where
  "colon_in (JStr s) = Inr (has_char CHR '':'' s)"
| "colon_in (JArr xs) = Inr (JStr '':'' \<in> set xs)"
| "colon_in (JObj kvs) = Inr ('':'' \<in> fst ` set kvs)"
| "colon_in _ = Inl TypeError"

fun parse_label_loop :: "(string \<times> string) list \<Rightarrow> json list \<Rightarrow> py_error + (string \<times> string) list" where
  "parse_label_loop m [] = Inr m"
| "parse_label_loop m (l # ls) =
     (case colon_in l of
        Inl e \<Rightarrow> Inl e
      | Inr False \<Rightarrow> parse_label_loop m ls
      | Inr True \<Rightarrow>
          (case l of
             JStr s \<Rightarrow>
               parse_label_loop
                 (AList.update (py_lower (split1_head CHR '':'' s)) (split1_tail CHR '':'' s) m) ls
           | _ \<Rightarrow> Inl AttributeError))"

definition parse_label_map :: "json list \<Rightarrow> py_error + (string \<times> string) list" where
  "parse_label_map labels = parse_label_loop [] labels"

section \<open>Kind-adaptive encoders\<close>

text \<open>
  \<^verbatim>\<open>DB_SCHEMA\<close> is fetched once at import; here it is a parameter \<open>sch\<close>, the dict from
  property name to the value of \<^verbatim>\<open>info.get("type")\<close>. \<^verbatim>\<open>NOTION_PEOPLE_MAP\<close> and
  \<^verbatim>\<open>PROJECT_MAP\<close> are the parameters \<open>pm\<close> and \<open>prj\<close>, both dicts.
\<close>

definition schema_get :: "pydict \<Rightarrow> string \<Rightarrow> json" where
  "schema_get sch prop_name = get_d sch prop_name JNull"

definition select_val :: "json \<Rightarrow> json" where
  "select_val v = JObj [(''select'', JObj [(''name'', v)])]"

definition multi_val :: "json list \<Rightarrow> json" where
  "multi_val vs = JObj [(''multi_select'', JArr (map (\<lambda>v. JObj [(''name'', v)]) vs))]"

definition text_val :: "json \<Rightarrow> json" where
  "text_val v = JObj [(''rich_text'', JArr [JObj [(''text'', JObj [(''content'', v)])]])]"

definition people_val :: "json list \<Rightarrow> json" where
  "people_val ids = JObj [(''people'', JArr (map (\<lambda>i. JObj [(''id'', i)]) ids))]"

text \<open>\<^verbatim>\<open>select_payload\<close> (notion\_sync.py 129--135, issue\_to\_notion.py 61--67, same text).\<close>

definition select_payload :: "pydict \<Rightarrow> string \<Rightarrow> json \<Rightarrow> pydict" where
  "select_payload sch prop_name v =
     (let t = schema_get sch prop_name
      in if t = JStr ''select'' then [(prop_name, select_val v)]
         else if t = JStr ''multi_select'' then [(prop_name, multi_val [v])]
         else [(prop_name, text_val v)])"

text \<open>\<^verbatim>\<open>multi_select_payload\<close>, notion\_sync.py 137--145; \<open>None\<close> is Python's \<^verbatim>\<open>None\<close>.\<close>

definition multi_select_payload_n :: "pydict \<Rightarrow> string \<Rightarrow> json list \<Rightarrow> pydict option" where
  "multi_select_payload_n sch prop_name vs =
     (let t = schema_get sch prop_name
      in if vs = [] then
           (if t = JStr ''multi_select'' then Some [(prop_name, multi_val [])] else None)
         else if t = JStr ''multi_select'' then Some [(prop_name, multi_val vs)]
         else None)"

text \<open>\<^verbatim>\<open>multi_select_payload\<close>, issue\_to\_notion.py 69--75.\<close>

definition multi_select_payload_i :: "pydict \<Rightarrow> string \<Rightarrow> json list \<Rightarrow> pydict option" where
  "multi_select_payload_i sch prop_name vs =
     (let t = schema_get sch prop_name
      in if vs = [] then
           (if t = JStr ''multi_select'' then Some [(prop_name, multi_val [])] else None)
         else if t = JStr ''multi_select'' then Some [(prop_name, multi_val vs)]
         else None)"

text \<open>
  \<^verbatim>\<open>d.get(key)\<close> and \<^verbatim>\<open>key in d\<close> for a key of any type on a dict with string
  keys: a list or dict key is unhashable (TypeError), any other non-string key is absent.
\<close>

fun py_get_key :: "pydict \<Rightarrow> json \<Rightarrow> py_error + json" where
  "py_get_key d (JStr s) = Inr (get_d d s JNull)"
| "py_get_key d (JArr xs) = Inl TypeError"
| "py_get_key d (JObj kvs) = Inl TypeError"
| "py_get_key d _ = Inr JNull"

fun py_key_in :: "pydict \<Rightarrow> json \<Rightarrow> py_error + bool" where
  "py_key_in d (JStr s) = Inr (map_of d s \<noteq> None)"
| "py_key_in d (JArr xs) = Inl TypeError"
| "py_key_in d (JObj kvs) = Inl TypeError"
| "py_key_in d _ = Inr False"

text \<open>\<^verbatim>\<open>gh_login or ""\<close>\<close>

definition or_empty :: "json \<Rightarrow> json" where
  "or_empty v = (if py_truthy v then v else JStr [])"

text \<open>\<^verbatim>\<open>people_payload\<close>, notion\_sync.py 147--155.\<close>

definition people_payload_n :: "pydict \<Rightarrow> pydict \<Rightarrow> string \<Rightarrow> json \<Rightarrow> py_error + pydict" where
  "people_payload_n sch pm prop_name gh_login =
     (let t = schema_get sch prop_name
      in if t = JStr ''people'' then
           (if py_truthy gh_login then
              bind_err (py_get_key pm gh_login) (\<lambda>notion_id.
                if py_truthy notion_id then Inr [(prop_name, people_val [notion_id])]
                else Inr [(prop_name, people_val [])])
            else Inr [(prop_name, people_val [])])
         else Inr [(prop_name, text_val (or_empty gh_login))])"

text \<open>\<^verbatim>\<open>people_payload\<close>, issue\_to\_notion.py 77--83.\<close>

definition people_payload_i :: "pydict \<Rightarrow> pydict \<Rightarrow> string \<Rightarrow> json \<Rightarrow> py_error + pydict" where
  "people_payload_i sch pm prop_name gh_login =
     (let t = schema_get sch prop_name
      in if t = JStr ''people'' then
           (if py_truthy gh_login then
              bind_err (py_key_in pm gh_login) (\<lambda>present.
                if present then
                  bind_err (py_get_key pm gh_login) (\<lambda>notion_id.
                    Inr [(prop_name, people_val [notion_id])])
                else Inr [(prop_name, people_val [])])
            else Inr [(prop_name, people_val [])])
         else Inr [(prop_name, text_val (or_empty gh_login))])"

section \<open>Field derivation\<close>

text \<open>\<^verbatim>\<open>repo_full.split("/",1)[1] if "/" in repo_full else repo_full\<close>\<close>

definition short_of :: "string \<Rightarrow> string" where
  "short_of repo_full =
     (if has_char CHR ''/'' repo_full then split1_tail CHR ''/'' repo_full else repo_full)"

text \<open>
  \<^verbatim>\<open>resolve_project_name_from_repo\<close> (notion\_sync.py 165--172) and
  \<^verbatim>\<open>resolve_project\<close> (issue\_to\_notion.py 122--129), same text.
\<close>

definition resolve_project :: "pydict \<Rightarrow> string \<Rightarrow> json" where
  "resolve_project prj repo_full =
     (let short = short_of repo_full
      in case map_of prj short of
           Some v \<Rightarrow> v
         | None \<Rightarrow>
             (case find (\<lambda>kv. py_lower (fst kv) = py_lower short) prj of
                Some kv \<Rightarrow> snd kv
              | None \<Rightarrow> JStr ''All''))"

text \<open>
  The label loop of \<^verbatim>\<open>resolve_sprint_from_issue\<close> (notion\_sync.py 176--180).
  \<open>Some v\<close> is the early \<^verbatim>\<open>return\<close>, \<open>None\<close> is falling out of the loop.
  A label that starts with \<^verbatim>\<open>sprint:\<close> has its first colon at index 6, so
  \<^verbatim>\<open>l.split(":", 1)[1]\<close> is the text after it; only a string has \<^verbatim>\<open>lower\<close>.
\<close>

fun sprint_label_n :: "json list \<Rightarrow> py_error + string option" where
  "sprint_label_n [] = Inr None"
| "sprint_label_n (l # ls) =
     (case l of
        JStr s \<Rightarrow>
          (if py_startswith (py_lower s) ''sprint:'' then
             (let val = py_strip (split1_tail CHR '':'' s)
              in if val \<noteq> [] then Inr (Some (''Sprint '' @ val)) else sprint_label_n ls)
           else sprint_label_n ls)
      | _ \<Rightarrow> Inl AttributeError)"

text \<open>The milestone fallback of \<^verbatim>\<open>resolve_sprint_from_issue\<close> (notion\_sync.py 182--190).\<close>

definition sprint_milestone_n :: "json \<Rightarrow> py_error + string option" where
  "sprint_milestone_n milestone =
     (if py_truthy milestone then
        bind_err (py_get milestone ''title'' JNull) (\<lambda>t.
          if py_truthy t then
            (case t of
               JStr s \<Rightarrow>
                 (let title = py_strip s
                  in if title \<noteq> [] then
                       (if py_startswith (py_lower title) ''sprint'' then Inr (Some title)
                        else Inr (Some title))
                     else Inr None)
             | _ \<Rightarrow> Inl AttributeError)
          else Inr None)
      else Inr None)"

definition resolve_sprint_from_issue :: "json list \<Rightarrow> json \<Rightarrow> py_error + string option" where
  "resolve_sprint_from_issue labels milestone =
     bind_err (sprint_label_n labels) (\<lambda>r.
       case r of Some v \<Rightarrow> Inr (Some v) | None \<Rightarrow> sprint_milestone_n milestone)"

text \<open>
  The sprint derivation inlined in \<^verbatim>\<open>build_properties\<close> of issue\_to\_notion.py
  (158--166): the loop stops at the first \<^verbatim>\<open>sprint:\<close> label whatever its value.
\<close>

fun sprint_label_i :: "json list \<Rightarrow> py_error + string option" where
  "sprint_label_i [] = Inr None"
| "sprint_label_i (s # ls) =
     (case s of
        JStr l \<Rightarrow>
          (if py_startswith (py_lower l) ''sprint:'' then
             Inr (Some (''Sprint '' @ py_strip (split1_tail CHR '':'' l)))
           else sprint_label_i ls)
      | _ \<Rightarrow> Inl AttributeError)"

definition sprint_i :: "json list \<Rightarrow> json \<Rightarrow> py_error + string option" where
  "sprint_i labels milestone =
     bind_err (sprint_label_i labels) (\<lambda>sprint_val.
       if (case sprint_val of None \<Rightarrow> True | Some v \<Rightarrow> v = []) \<and> py_truthy milestone then
         bind_err (py_get milestone ''title'' (JStr [])) (\<lambda>t.
           case t of
             JStr s \<Rightarrow>
               (let mtitle = py_strip s
                in if mtitle \<noteq> [] then Inr (Some mtitle) else Inr sprint_val)
           | _ \<Rightarrow> Inl AttributeError)
       else Inr sprint_val)"

section \<open>Reading the issue record\<close>

text \<open>
  \<^verbatim>\<open>issue.get("title","")[:200]\<close>: a string or a list can be sliced, anything else
  raises (TypeError; a dict raises KeyError from Python 3.12 on).
\<close>

fun py_slice200 :: "json \<Rightarrow> py_error + json" where
  "py_slice200 (JStr s) = Inr (JStr (take 200 s))"
| "py_slice200 (JArr xs) = Inr (JArr (take 200 xs))"
| "py_slice200 _ = Inl TypeError"

text \<open>\<^verbatim>\<open>[l.get("name") for l in xs]\<close> on the elements of a list.\<close>

fun names_of :: "json list \<Rightarrow> py_error + json list" where
  "names_of [] = Inr []"
| "names_of (l # ls) =
     bind_err (py_get l ''name'' JNull) (\<lambda>n.
       bind_err (names_of ls) (\<lambda>ns. Inr (n # ns)))"

text \<open>
  The comprehension over a truthy \<^verbatim>\<open>issue.get("labels",[])\<close>: a dict iterates over its
  keys and a string over its characters, and a string has no \<^verbatim>\<open>get\<close>; a number or
  \<^verbatim>\<open>True\<close> is not iterable.
\<close>

fun label_names :: "json \<Rightarrow> py_error + json list" where
  "label_names (JArr xs) = names_of xs"
| "label_names (JObj kvs) = (if kvs = [] then Inr [] else Inl AttributeError)"
| "label_names (JStr s) = (if s = [] then Inr [] else Inl AttributeError)"
| "label_names _ = Inl TypeError"

text \<open>notion\_sync.py 204, issue\_to\_notion.py 136.\<close>

definition issue_labels :: "pydict \<Rightarrow> py_error + json list" where
  "issue_labels issue =
     (if py_truthy (get_d issue ''labels'' JNull)
      then label_names (get_d issue ''labels'' (JArr []))
      else Inr [])"

text \<open>notion\_sync.py 206, issue\_to\_notion.py 138.\<close>

definition issue_assignee :: "pydict \<Rightarrow> py_error + json" where
  "issue_assignee issue =
     (if py_truthy (get_d issue ''assignee'' JNull)
      then py_get (get_d issue ''assignee'' (JObj [])) ''login'' JNull
      else Inr JNull)"

text \<open>notion\_sync.py 194--199: owner/name from \<^verbatim>\<open>repository_url\<close>.\<close>

definition issue_repo_full :: "pydict \<Rightarrow> py_error + string" where
  "issue_repo_full issue =
     (let repo_text = get_d issue ''repository_url'' (JStr [])
      in if py_truthy repo_text then
           (case repo_text of
              JStr s \<Rightarrow>
                (let parts = py_split CHR ''/'' (py_rstrip_char CHR ''/'' s)
                 in if length parts \<ge> 2
                    then Inr (parts ! (length parts - 2) @ ''/'' @ parts ! (length parts - 1))
                    else Inr ''unknown/unknown'')
            | _ \<Rightarrow> Inl AttributeError)
         else Inr ''unknown/unknown'')"

section \<open>Notes appends\<close>

text \<open>\<^verbatim>\<open>d[k]\<close> with a string key, and \<^verbatim>\<open>x[0]\<close>.\<close>

fun py_item :: "json \<Rightarrow> string \<Rightarrow> py_error + json" where
  "py_item (JObj d) k = (case map_of d k of Some v \<Rightarrow> Inr v | None \<Rightarrow> Inl KeyError)"
| "py_item _ k = Inl TypeError"

fun py_first :: "json \<Rightarrow> py_error + json" where
  "py_first (JArr (x # xs)) = Inr x"
| "py_first (JStr (c # cs)) = Inr (JStr [c])"
| "py_first (JObj d) = Inl KeyError"
| "py_first (JArr []) = Inl IndexError"
| "py_first (JStr []) = Inl IndexError"
| "py_first _ = Inl TypeError"

text \<open>\<^verbatim>\<open>props[PROP_BODY]["rich_text"][0]["text"]["content"]\<close>\<close>

definition notes_content :: "pydict \<Rightarrow> py_error + json" where
  "notes_content props =
     bind_err (py_item (JObj props) ''Notes'') (\<lambda>a.
     bind_err (py_item a ''rich_text'') (\<lambda>b.
     bind_err (py_first b) (\<lambda>c.
     bind_err (py_item c ''text'') (\<lambda>d.
     py_item d ''content''))))"

text \<open>\<^verbatim>\<open>existing + "..."\<close>: only a string can be added to a string.\<close>

fun py_add_str :: "json \<Rightarrow> string \<Rightarrow> py_error + string" where
  "py_add_str (JStr s) t = Inr (s @ t)"
| "py_add_str _ t = Inl TypeError"

text \<open>The argument list of \<^verbatim>\<open>", ".join(labels)\<close>: every item must be a string.\<close>

fun strs_of :: "json list \<Rightarrow> py_error + string list" where
  "strs_of [] = Inr []"
| "strs_of (JStr s # xs) = bind_err (strs_of xs) (\<lambda>ss. Inr (s # ss))"
| "strs_of (_ # xs) = Inl TypeError"

fun dec_nat :: "nat \<Rightarrow> string" where
  "dec_nat n =
     (if n < 10 then [char_of (48 + n)]
      else dec_nat (n div 10) @ [char_of (48 + n mod 10)])"

declare dec_nat.simps [simp del]

text \<open>
  \<^verbatim>\<open>str(x)\<close> inside the f-string, for the scalars that reach it: a list or dict
  assignee has raised TypeError at the people-map lookup before, so their text is never
  formatted and is left empty here.
\<close>

fun py_str :: "json \<Rightarrow> string" where
  "py_str (JStr s) = s"
| "py_str (JNum n) = (if n < 0 then ''-'' @ dec_nat (nat (- n)) else dec_nat (nat n))"
| "py_str (JBool b) = (if b then ''True'' else ''False'')"
| "py_str JNull = ''None''"
| "py_str _ = []"

definition nl2 :: string where
  "nl2 = [CHR 0x0A, CHR 0x0A]"

text \<open>notion\_sync.py 239--241, issue\_to\_notion.py 176--178 (same text).\<close>

definition append_labels_note :: "pydict \<Rightarrow> json list \<Rightarrow> pydict \<Rightarrow> py_error + pydict" where
  "append_labels_note sch labels props =
     (if schema_get sch ''Labels'' \<noteq> JStr ''multi_select'' \<and> labels \<noteq> [] then
        bind_err (notes_content props) (\<lambda>existing.
        bind_err (py_add_str existing (nl2 @ ''Labels: '')) (\<lambda>s.
        bind_err (strs_of labels) (\<lambda>ls.
          Inr (AList.update ''Notes'' (text_val (JStr (s @ py_join '', '' ls))) props))))
      else Inr props)"

text \<open>notion\_sync.py 242--244.\<close>

definition append_assignee_note_n :: "pydict \<Rightarrow> pydict \<Rightarrow> json \<Rightarrow> pydict \<Rightarrow> py_error + pydict" where
  "append_assignee_note_n sch pm gh_assignee props =
     (if schema_get sch ''Assigned To'' = JStr ''people'' \<and> py_truthy gh_assignee then
        bind_err (py_get_key pm gh_assignee) (\<lambda>v.
          if v = JNull then
            bind_err (notes_content props) (\<lambda>existing.
            bind_err (py_add_str existing (nl2 @ ''GitHub assignee: '' @ py_str gh_assignee)) (\<lambda>s.
              Inr (AList.update ''Notes'' (text_val (JStr s)) props)))
          else Inr props)
      else Inr props)"

text \<open>issue\_to\_notion.py 179--181.\<close>

definition append_assignee_note_i :: "pydict \<Rightarrow> pydict \<Rightarrow> json \<Rightarrow> pydict \<Rightarrow> py_error + pydict" where
  "append_assignee_note_i sch pm gh_assignee props =
     (if schema_get sch ''Assigned To'' = JStr ''people'' \<and> py_truthy gh_assignee then
        bind_err (py_key_in pm gh_assignee) (\<lambda>present.
          if \<not> present then
            bind_err (notes_content props) (\<lambda>existing.
            bind_err (py_add_str existing (nl2 @ ''GitHub assignee: '' @ py_str gh_assignee)) (\<lambda>s.
              Inr (AList.update ''Notes'' (text_val (JStr s)) props)))
          else Inr props)
      else Inr props)"

section \<open>The payload builders\<close>

definition title_val :: "json \<Rightarrow> json" where
  "title_val t = JObj [(''title'', JArr [JObj [(''text'', JObj [(''content'', t)])]])]"

definition date_val :: "json \<Rightarrow> json" where
  "date_val d = JObj [(''date'', JObj [(''start'', d)])]"

text \<open>\<^verbatim>\<open>if lbl_payload: props.update(lbl_payload)\<close>\<close>

definition update_opt :: "pydict option \<Rightarrow> pydict \<Rightarrow> pydict" where
  "update_opt p props =
     (case p of None \<Rightarrow> props | Some d \<Rightarrow> if d \<noteq> [] then dict_update props d else props)"

text \<open>\<^verbatim>\<open>if "type" in label_map: props.update(select_payload(PROP_TYPE, label_map["type"]))\<close>\<close>

definition label_select :: "pydict \<Rightarrow> (string \<times> string) list \<Rightarrow> string \<Rightarrow> string \<Rightarrow> pydict \<Rightarrow> pydict" where
  "label_select sch label_map key prop props =
     (case map_of label_map key of
        Some v \<Rightarrow> dict_update props (select_payload sch prop (JStr v))
      | None \<Rightarrow> props)"

text \<open>\<^verbatim>\<open>if sprint_val: props.update(select_payload(PROP_SPRINT, sprint_val))\<close>\<close>

definition sprint_select :: "pydict \<Rightarrow> string option \<Rightarrow> pydict \<Rightarrow> pydict" where
  "sprint_select sch sprint_val props =
     (case sprint_val of
        Some v \<Rightarrow> if v \<noteq> [] then dict_update props (select_payload sch ''Sprint'' (JStr v)) else props
      | None \<Rightarrow> props)"

text \<open>\<^verbatim>\<open>if created: props[PROP_CREATED] = {"date":{"start": created}}\<close>\<close>

definition date_set :: "string \<Rightarrow> json \<Rightarrow> pydict \<Rightarrow> pydict" where
  "date_set prop d props = (if py_truthy d then AList.update prop (date_val d) props else props)"

definition status_of_state :: "json \<Rightarrow> string" where
  "status_of_state gh_state = (if gh_state = JStr ''closed'' then ''Done'' else ''Backlog'')"

text \<open>
  Lines 212--227 of notion\_sync.py and 143--156 of issue\_to\_notion.py: the properties set
  before the sprint, in the source's order; \<open>msp\<close> is the file's own
  \<^verbatim>\<open>multi_select_payload\<close>.
\<close>

definition props_head ::
  "(pydict \<Rightarrow> string \<Rightarrow> json list \<Rightarrow> pydict option) \<Rightarrow> pydict \<Rightarrow> pydict \<Rightarrow> pydict \<Rightarrow>
   string \<Rightarrow> json \<Rightarrow> json list \<Rightarrow> (string \<times> string) list \<Rightarrow> pydict" where
  "props_head msp sch prj issue short_repo title labels label_map =
     label_select sch label_map ''priority'' ''Priority''
       (label_select sch label_map ''type'' ''Type''
         (update_opt (msp sch ''Labels'' labels)
           (dict_update
             (AList.update ''GitHub Link'' (JObj [(''url'', get_d issue ''html_url'' JNull)])
               (dict_update
                 (dict_update
                   (AList.update ''GitHub ID'' (JObj [(''number'', get_d issue ''id'' JNull)])
                     (AList.update ''Task'' (title_val title) []))
                   (select_payload sch ''Repo'' (JStr short_repo)))
                 (select_payload sch ''Project'' (resolve_project prj short_repo))))
             (select_payload sch ''Status''
               (JStr (status_of_state (get_d issue ''state'' (JStr ''open''))))))))"

text \<open>Lines 233--237 of notion\_sync.py and 170--174 of issue\_to\_notion.py.\<close>

definition props_tail :: "pydict \<Rightarrow> json \<Rightarrow> pydict \<Rightarrow> pydict" where
  "props_tail issue body props =
     date_set ''Updated At'' (get_d issue ''updated_at'' JNull)
       (date_set ''Created At'' (get_d issue ''created_at'' JNull)
         (AList.update ''Notes'' (text_val body) props))"

text \<open>\<^verbatim>\<open>build_properties\<close>, notion\_sync.py 192--245.\<close>

definition build_properties_n :: "pydict \<Rightarrow> pydict \<Rightarrow> pydict \<Rightarrow> pydict \<Rightarrow> py_error + pydict" where
  "build_properties_n sch pm prj issue =
     bind_err (issue_repo_full issue) (\<lambda>repo_full.
     bind_err (py_slice200 (get_d issue ''title'' (JStr []))) (\<lambda>title.
     bind_err (issue_labels issue) (\<lambda>labels.
     bind_err (parse_label_map labels) (\<lambda>label_map.
     bind_err (issue_assignee issue) (\<lambda>gh_assignee.
     bind_err (resolve_sprint_from_issue labels (get_d issue ''milestone'' JNull)) (\<lambda>sprint_val.
     bind_err (people_payload_n sch pm ''Assigned To'' gh_assignee) (\<lambda>pp.
     bind_err (append_labels_note sch labels
                (props_tail issue (or_empty (get_d issue ''body'' JNull))
                  (dict_update
                    (sprint_select sch sprint_val
                      (props_head multi_select_payload_n sch prj issue (short_of repo_full)
                         title labels label_map))
                    pp)))
       (append_assignee_note_n sch pm gh_assignee))))))))"

text \<open>\<^verbatim>\<open>build_properties\<close>, issue\_to\_notion.py 131--182.\<close>

definition build_properties_i ::
  "pydict \<Rightarrow> pydict \<Rightarrow> pydict \<Rightarrow> pydict \<Rightarrow> string \<Rightarrow> py_error + pydict" where
  "build_properties_i sch pm prj issue repo_full =
     bind_err (py_slice200 (get_d issue ''title'' (JStr []))) (\<lambda>title.
     bind_err (issue_labels issue) (\<lambda>labels.
     bind_err (parse_label_map labels) (\<lambda>label_map.
     bind_err (issue_assignee issue) (\<lambda>gh_assignee.
     bind_err (sprint_i labels (get_d issue ''milestone'' JNull)) (\<lambda>sprint_val.
     bind_err (people_payload_i sch pm ''Assigned To'' gh_assignee) (\<lambda>pp.
     bind_err (append_labels_note sch labels
                (props_tail issue (or_empty (get_d issue ''body'' JNull))
                  (dict_update
                    (sprint_select sch sprint_val
                      (props_head multi_select_payload_i sch prj issue (short_of repo_full)
                         title labels label_map))
                    pp)))
       (append_assignee_note_i sch pm gh_assignee)))))))"

section \<open>The diff\<close>

text \<open>
  Python's \<^verbatim>\<open>==\<close> on decoded JSON: \<^verbatim>\<open>True == 1\<close> and \<^verbatim>\<open>False == 0\<close>, lists
  compare element by element, dicts compare as sets of key/value pairs.
\<close>

primrec py_eq :: "json \<Rightarrow> json \<Rightarrow> bool" where
  "py_eq JNull y = (y = JNull)"
| "py_eq (JBool a) y =
     (case y of JBool b \<Rightarrow> a = b | JNum n \<Rightarrow> n = (if a then 1 else 0) | _ \<Rightarrow> False)"
| "py_eq (JNum m) y =
     (case y of JNum n \<Rightarrow> m = n | JBool b \<Rightarrow> m = (if b then 1 else 0) | _ \<Rightarrow> False)"
| "py_eq (JStr s) y = (y = JStr s)"
| "py_eq (JArr xs) y =
     (case y of JArr ys \<Rightarrow> list_all2 (\<lambda>f v. f v) (map py_eq xs) ys | _ \<Rightarrow> False)"
| "py_eq (JObj kvs) y =
     (case y of
        JObj ws \<Rightarrow>
          set (map fst kvs) = set (map fst ws) \<and>
          list_all (\<lambda>kf. case map_of ws (fst kf) of Some w \<Rightarrow> snd kf w | None \<Rightarrow> False)
            (map (map_prod id py_eq) kvs)
      | _ \<Rightarrow> False)"

text \<open>\<^verbatim>\<open>for p in x\<close>: the items a value iterates over.\<close>

fun iter_items :: "json \<Rightarrow> py_error + json list" where
  "iter_items (JArr xs) = Inr xs"
| "iter_items (JObj kvs) = Inr (map (\<lambda>kv. JStr (fst kv)) kvs)"
| "iter_items (JStr s) = Inr (map (\<lambda>c. JStr [c]) s)"
| "iter_items _ = Inl TypeError"

text \<open>\<^verbatim>\<open>p.get("text",{}).get("content","") for p in xs\<close>\<close>

fun contents_of :: "json list \<Rightarrow> py_error + json list" where
  "contents_of [] = Inr []"
| "contents_of (p # ps) =
     bind_err (py_get p ''text'' (JObj [])) (\<lambda>t.
     bind_err (py_get t ''content'' (JStr [])) (\<lambda>c.
     bind_err (contents_of ps) (\<lambda>cs. Inr (c # cs))))"

text \<open>
  \<^verbatim>\<open>"".join(p.get("text",{}).get("content","") for p in d.get(prop,{}).get(key,[]))\<close>
\<close>

definition joined_text :: "json \<Rightarrow> string \<Rightarrow> string \<Rightarrow> py_error + string" where
  "joined_text d prop key =
     bind_err (py_get d prop (JObj [])) (\<lambda>p.
     bind_err (py_get p key (JArr [])) (\<lambda>items.
     bind_err (iter_items items) (\<lambda>xs.
     bind_err (contents_of xs) (\<lambda>cs.
     bind_err (strs_of cs) (\<lambda>ss. Inr (concat ss))))))"

text \<open>\<^verbatim>\<open>d.get(prop,{}).get("select",{}).get("name", dflt)\<close>\<close>

definition sel_name :: "json \<Rightarrow> string \<Rightarrow> json \<Rightarrow> py_error + json" where
  "sel_name d prop dflt =
     bind_err (py_get d prop (JObj [])) (\<lambda>p.
     bind_err (py_get p ''select'' (JObj [])) (\<lambda>s.
     py_get s ''name'' dflt))"

text \<open>
  \<^verbatim>\<open>set([...])\<close>: a list or dict is unhashable; \<^verbatim>\<open>True\<close> and \<^verbatim>\<open>1\<close> are one
  element of a set, as are \<^verbatim>\<open>False\<close> and \<^verbatim>\<open>0\<close>.
\<close>

fun hash_key :: "json \<Rightarrow> py_error + json" where
  "hash_key (JArr xs) = Inl TypeError"
| "hash_key (JObj kvs) = Inl TypeError"
| "hash_key (JBool b) = Inr (JNum (if b then 1 else 0))"
| "hash_key x = Inr x"

fun set_of :: "json list \<Rightarrow> py_error + json set" where
  "set_of [] = Inr {}"
| "set_of (x # xs) =
     bind_err (hash_key x) (\<lambda>k.
     bind_err (set_of xs) (\<lambda>S. Inr (insert k S)))"

text \<open>\<^verbatim>\<open>set([m.get("name") for m in d.get(PROP_LABELS,{}).get("multi_select",[])])\<close>\<close>

definition label_set :: "json \<Rightarrow> py_error + json set" where
  "label_set d =
     bind_err (py_get d ''Labels'' (JObj [])) (\<lambda>p.
     bind_err (py_get p ''multi_select'' (JArr [])) (\<lambda>items.
     bind_err (iter_items items) (\<lambda>xs.
     bind_err (names_of xs) set_of)))"

text \<open>
  The comparisons of \<^verbatim>\<open>properties_differ\<close>, one per block of the source; \<open>props\<close> is
  \<^verbatim>\<open>existing.get("properties", {})\<close> and \<open>new\<close> the new payload.
\<close>

definition title_differs :: "json \<Rightarrow> json \<Rightarrow> py_error + bool" where
  "title_differs props new =
     bind_err (joined_text props ''Task'' ''title'') (\<lambda>e_title.
     bind_err (joined_text new ''Task'' ''title'') (\<lambda>n_title.
     Inr (py_strip e_title \<noteq> py_strip n_title)))"

definition select_differs :: "pydict \<Rightarrow> json \<Rightarrow> json \<Rightarrow> string \<Rightarrow> py_error + bool" where
  "select_differs sch props new prop =
     (if schema_get sch prop = JStr ''select'' then
        bind_err (sel_name props prop (JStr [])) (\<lambda>e_v.
        bind_err (sel_name new prop (JStr [])) (\<lambda>n_v.
        Inr (\<not> py_eq e_v n_v)))
      else Inr False)"

definition labels_differ :: "pydict \<Rightarrow> json \<Rightarrow> json \<Rightarrow> py_error + bool" where
  "labels_differ sch props new =
     (if schema_get sch ''Labels'' = JStr ''multi_select'' then
        bind_err (label_set props) (\<lambda>e_labels.
        bind_err (label_set new) (\<lambda>n_labels.
        Inr (e_labels \<noteq> n_labels)))
      else Inr False)"

definition body_differs :: "json \<Rightarrow> json \<Rightarrow> py_error + bool" where
  "body_differs props new =
     bind_err (joined_text props ''Notes'' ''rich_text'') (\<lambda>e_body.
     bind_err (joined_text new ''Notes'' ''rich_text'') (\<lambda>n_body.
     Inr (py_strip e_body \<noteq> py_strip n_body)))"

definition status_differs :: "json \<Rightarrow> json \<Rightarrow> py_error + bool" where
  "status_differs props new =
     bind_err (sel_name props ''Status'' (JStr [])) (\<lambda>e_status.
     bind_err (sel_name new ''Status'' (JStr [])) (\<lambda>n_status.
     Inr (n_status = JStr ''Done'' \<and> e_status \<noteq> JStr ''Done'')))"

text \<open>\<^verbatim>\<open>if <comparison>: return True\<close>, followed by the rest of the function.\<close>

definition check :: "py_error + bool \<Rightarrow> py_error + bool \<Rightarrow> py_error + bool" where
  "check c rest = bind_err c (\<lambda>b. if b then Inr True else rest)"

text \<open>\<^verbatim>\<open>try: ... except Exception: return True\<close>\<close>

definition or_true :: "py_error + bool \<Rightarrow> bool" where
  "or_true r = (case r of Inl e \<Rightarrow> True | Inr b \<Rightarrow> b)"

text \<open>The comparisons before the status rule, notion\_sync.py 273--304.\<close>

definition fields_differ_n :: "pydict \<Rightarrow> json \<Rightarrow> json \<Rightarrow> py_error + bool \<Rightarrow> py_error + bool" where
  "fields_differ_n sch props new rest =
     check (title_differs props new)
    (check (select_differs sch props new ''Project'')
    (check (select_differs sch props new ''Type'')
    (check (select_differs sch props new ''Priority'')
    (check (select_differs sch props new ''Sprint'')
    (check (labels_differ sch props new)
    (check (body_differs props new) rest))))))"

text \<open>\<^verbatim>\<open>properties_differ\<close>, notion\_sync.py 270--311.\<close>

definition properties_differ_n :: "pydict \<Rightarrow> json \<Rightarrow> pydict \<Rightarrow> bool" where
  "properties_differ_n sch existing new_props =
     or_true
       (bind_err (py_get existing ''properties'' (JObj [])) (\<lambda>props.
          fields_differ_n sch props (JObj new_props)
            (check (status_differs props (JObj new_props)) (Inr False))))"

text \<open>The loop over the four select properties, issue\_to\_notion.py 199--203.\<close>

fun select_loop :: "pydict \<Rightarrow> json \<Rightarrow> json \<Rightarrow> string list \<Rightarrow> py_error + bool \<Rightarrow> py_error + bool" where
  "select_loop sch props new [] rest = rest"
| "select_loop sch props new (prop # ps) rest =
     check (select_differs sch props new prop) (select_loop sch props new ps rest)"

text \<open>\<^verbatim>\<open>properties_differ\<close>, issue\_to\_notion.py 184--211.\<close>

definition properties_differ_i :: "pydict \<Rightarrow> json \<Rightarrow> pydict \<Rightarrow> bool" where
  "properties_differ_i sch existing new_props =
     or_true
       (bind_err (py_get existing ''properties'' (JObj [])) (\<lambda>props.
          check (title_differs props (JObj new_props))
         (check (status_differs props (JObj new_props))
         (check (body_differs props (JObj new_props))
         (select_loop sch props (JObj new_props)
            [''Project'', ''Type'', ''Priority'', ''Sprint'']
            (check (labels_differ sch props (JObj new_props)) (Inr False)))))))"

section \<open>The update payload and the decision\<close>

text \<open>\<^verbatim>\<open>if p in new_props and DB_SCHEMA.get(p) == "select": update_payload[p] = new_props[p]\<close>\<close>

definition copy_select :: "pydict \<Rightarrow> pydict \<Rightarrow> string \<Rightarrow> pydict \<Rightarrow> pydict" where
  "copy_select sch new_props p up =
     (case map_of new_props p of
        Some v \<Rightarrow> if schema_get sch p = JStr ''select'' then AList.update p v up else up
      | None \<Rightarrow> up)"

definition copy_labels :: "pydict \<Rightarrow> pydict \<Rightarrow> pydict \<Rightarrow> pydict" where
  "copy_labels sch new_props up =
     (if schema_get sch ''Labels'' = JStr ''multi_select'' \<and> map_of new_props ''Labels'' \<noteq> None
      then AList.update ''Labels''
             (get_d new_props ''Labels'' (JObj [(''multi_select'', JArr [])])) up
      else up)"

definition set_done :: "json \<Rightarrow> pydict \<Rightarrow> pydict" where
  "set_done n up =
     (if n = JStr ''Done'' then AList.update ''Status'' (select_val (JStr ''Done'')) up else up)"

text \<open>The update payload of \<^verbatim>\<open>sync_repo\<close>, notion\_sync.py 327--341.\<close>

definition update_payload_n :: "pydict \<Rightarrow> pydict \<Rightarrow> py_error + pydict" where
  "update_payload_n sch new_props =
     bind_err (py_item (JObj new_props) ''Task'') (\<lambda>t.
     bind_err (py_item (JObj new_props) ''Notes'') (\<lambda>b.
     bind_err (sel_name (JObj new_props) ''Status'' JNull) (\<lambda>n.
       Inr (set_done n
             (copy_labels sch new_props
               (copy_select sch new_props ''Sprint''
                 (copy_select sch new_props ''Priority''
                   (copy_select sch new_props ''Type''
                     (copy_select sch new_props ''Project''
                       (AList.update ''Notes'' b (AList.update ''Task'' t [])))))))))))"

text \<open>The update payload of \<^verbatim>\<open>main\<close>, issue\_to\_notion.py 236--245.\<close>

definition update_payload_i :: "pydict \<Rightarrow> pydict \<Rightarrow> py_error + pydict" where
  "update_payload_i sch new_props =
     bind_err (py_item (JObj new_props) ''Task'') (\<lambda>t.
     bind_err (py_item (JObj new_props) ''Notes'') (\<lambda>b.
     bind_err (sel_name (JObj new_props) ''Status'' JNull) (\<lambda>n.
       Inr (set_done n
             (copy_labels sch new_props
               (fold (copy_select sch new_props) [''Project'', ''Type'', ''Priority'', ''Sprint'']
                 (AList.update ''Notes'' b (AList.update ''Task'' t []))))))))"

text \<open>
  What one pass over an issue does to the destination. \<open>existing\<close> is the result of
  \<^verbatim>\<open>notion_query_by_github_id\<close> (\<open>JNull\<close> when nothing was found); \<open>Update\<close> carries the
  page id and the payload handed to \<^verbatim>\<open>notion_update_page\<close>, \<open>Create\<close> the payload
  handed to \<^verbatim>\<open>notion_create_page\<close>. \<open>Failed\<close> is an exception, which
  \<^verbatim>\<open>sync_repo\<close> catches per issue and \<^verbatim>\<open>main\<close> of issue\_to\_notion.py reports as fatal.
\<close>

datatype action = Create pydict | Update json pydict | Noop | Skipped | Failed py_error

text \<open>The loop body of \<^verbatim>\<open>sync_repo\<close>, notion\_sync.py 319--350.\<close>

definition sync_issue_n :: "pydict \<Rightarrow> pydict \<Rightarrow> pydict \<Rightarrow> json \<Rightarrow> pydict \<Rightarrow> action" where
  "sync_issue_n sch pm prj existing it =
     (if \<not> py_truthy (get_d it ''id'' JNull) then Skipped
      else case build_properties_n sch pm prj it of
             Inl e \<Rightarrow> Failed e
           | Inr new_props \<Rightarrow>
               if py_truthy existing then
                 (if properties_differ_n sch existing new_props then
                    (case update_payload_n sch new_props of
                       Inl e \<Rightarrow> Failed e
                     | Inr up \<Rightarrow>
                         (case py_get existing ''id'' JNull of
                            Inl e \<Rightarrow> Failed e
                          | Inr page_id \<Rightarrow> Update page_id up))
                  else Noop)
               else Create new_props)"

text \<open>
  \<^verbatim>\<open>main\<close> of issue\_to\_notion.py, 223--252, from the issue of the event on; an empty
  issue object is falsy and ends the run (\<^verbatim>\<open>if not issue: return\<close>).
\<close>

definition sync_issue_i :: "pydict \<Rightarrow> pydict \<Rightarrow> pydict \<Rightarrow> json \<Rightarrow> pydict \<Rightarrow> string \<Rightarrow> action" where
  "sync_issue_i sch pm prj page issue repo_full =
     (if issue = [] then Skipped
      else case build_properties_i sch pm prj issue repo_full of
             Inl e \<Rightarrow> Failed e
           | Inr new_props \<Rightarrow>
               if py_truthy page then
                 (if properties_differ_i sch page new_props then
                    (case update_payload_i sch new_props of
                       Inl e \<Rightarrow> Failed e
                     | Inr up \<Rightarrow>
                         (case py_get page ''id'' JNull of
                            Inl e \<Rightarrow> Failed e
                          | Inr page_id \<Rightarrow> Update page_id up))
                  else Noop)
               else Create new_props)"

section \<open>Auxiliary notions for the statements\<close>

text \<open>The key/value pairs that a list of string labels declares, in list order.\<close>

definition label_pairs :: "string list \<Rightarrow> (string \<times> string) list" where
  "label_pairs ls =
     map (\<lambda>l. (py_lower (split1_head CHR '':'' l), split1_tail CHR '':'' l))
       (filter (has_char CHR '':'') ls)"

text \<open>A label that the sprint loops react to, and the value they take from it.\<close>

definition is_sprint_label :: "string \<Rightarrow> bool" where
  "is_sprint_label l = py_startswith (py_lower l) ''sprint:''"

definition sprint_label_value :: "string \<Rightarrow> string" where
  "sprint_label_value l = py_strip (split1_tail CHR '':'' l)"

text \<open>The label that decides the sprint: in notion\_sync.py, in issue\_to\_notion.py.\<close>

definition sprint_hit_n :: "string list \<Rightarrow> string option" where
  "sprint_hit_n ls = find (\<lambda>l. is_sprint_label l \<and> sprint_label_value l \<noteq> []) ls"

definition sprint_hit_i :: "string list \<Rightarrow> string option" where
  "sprint_hit_i ls = find is_sprint_label ls"

text \<open>The stripped title of an attached milestone, when it is a non-blank string.\<close>

definition milestone_title :: "json \<Rightarrow> string option" where
  "milestone_title ms =
     (case ms of
        JObj m \<Rightarrow>
          (case map_of m ''title'' of
             Some (JStr t) \<Rightarrow> if py_strip t = [] then None else Some (py_strip t)
           | _ \<Rightarrow> None)
      | _ \<Rightarrow> None)"

text \<open>The sprint value the two scripts derive, as an option.\<close>

definition sprint_value_n :: "string list \<Rightarrow> json \<Rightarrow> string option" where
  "sprint_value_n ls ms =
     (case sprint_hit_n ls of
        Some l \<Rightarrow> Some (''Sprint '' @ sprint_label_value l)
      | None \<Rightarrow> milestone_title ms)"

definition sprint_value_i :: "string list \<Rightarrow> json \<Rightarrow> string option" where
  "sprint_value_i ls ms =
     (case sprint_hit_i ls of
        Some l \<Rightarrow> Some (''Sprint '' @ sprint_label_value l)
      | None \<Rightarrow> milestone_title ms)"

text \<open>What an update payload holds under a key, given the status name \<open>n\<close> of the new payload.\<close>

definition update_lookup :: "pydict \<Rightarrow> pydict \<Rightarrow> json \<Rightarrow> string \<Rightarrow> json option" where
  "update_lookup sch new_props n k =
     (if k = ''Status'' then (if n = JStr ''Done'' then Some (select_val (JStr ''Done'')) else None)
      else if k = ''Labels'' then
        (if schema_get sch ''Labels'' = JStr ''multi_select'' then map_of new_props ''Labels'' else None)
      else if k \<in> {''Project'', ''Type'', ''Priority'', ''Sprint''} then
        (if schema_get sch k = JStr ''select'' then map_of new_props k else None)
      else if k \<in> {''Task'', ''Notes''} then map_of new_props k
      else None)"

text \<open>
  A running example: a destination whose Project, Type and Status are single-choice, whose
  Labels are multi-choice and whose assignee is a person reference; issue 101 of the
  repository \<open>o/r\<close>, open and closed; and the page the destination holds for it, with
  status \<open>Backlog\<close> and with status \<open>Done\<close>.
\<close>

definition ex_schema :: pydict where
  "ex_schema =
     [(''Project'', JStr ''select''), (''Type'', JStr ''select''), (''Status'', JStr ''select''),
      (''Labels'', JStr ''multi_select''), (''Assigned To'', JStr ''people'')]"

definition ex_issue :: "string \<Rightarrow> pydict" where
  "ex_issue state =
     [(''id'', JNum 101), (''title'', JStr ''Fix crash''),
      (''labels'', JArr [JObj [(''name'', JStr ''type:feature'')],
                         JObj [(''name'', JStr ''priority:high'')]]),
      (''state'', JStr state),
      (''created_at'', JStr ''2024-05-01T10:00:00Z''),
      (''html_url'', JStr ''https://github.com/o/r/issues/1''),
      (''repository_url'', JStr ''https://api.github.com/repos/o/r'')]"

definition ex_page :: "string \<Rightarrow> json" where
  "ex_page status =
     JObj [(''id'', JStr ''page-1''),
           (''properties'',
            JObj [(''Task'', title_val (JStr ''Fix crash'')),
                  (''Project'', select_val (JStr ''All'')),
                  (''Type'', select_val (JStr ''feature'')),
                  (''Labels'', multi_val [JStr ''type:feature'', JStr ''priority:high'']),
                  (''Status'', select_val (JStr status))])]"

text \<open>
  The inputs on which the two scripts part: a \<^verbatim>\<open>sprint:\<close> label whose value is blank,
  a milestone title that is present but not a string, and a people map with a falsy id.
\<close>

fun blank_sprint :: "json \<Rightarrow> bool" where
  "blank_sprint (JStr s) = (is_sprint_label s \<and> sprint_label_value s = [])"
| "blank_sprint _ = False"

definition title_str_or_absent :: "json \<Rightarrow> bool" where
  "title_str_or_absent ms =
     (case ms of
        JObj m \<Rightarrow> (case map_of m ''title'' of None \<Rightarrow> True | Some (JStr t) \<Rightarrow> True | Some _ \<Rightarrow> False)
      | _ \<Rightarrow> True)"

definition no_blank_sprint :: "pydict \<Rightarrow> bool" where
  "no_blank_sprint issue =
     (case issue_labels issue of
        Inl e \<Rightarrow> True
      | Inr labels \<Rightarrow> list_all (\<lambda>l. \<not> blank_sprint l) labels)"

definition ids_truthy :: "pydict \<Rightarrow> bool" where
  "ids_truthy pm = list_all (\<lambda>kv. py_truthy (snd kv)) pm"

text \<open>The status the diff reads from an existing record (\<^verbatim>\<open>e_status\<close>).\<close>

definition page_status :: "json \<Rightarrow> py_error + json" where
  "page_status page =
     bind_err (py_get page ''properties'' (JObj [])) (\<lambda>props.
       sel_name props ''Status'' (JStr []))"

text \<open>
  The destination is external to the scripts. Its contract for an update, as the calls
  rely on it (\<^verbatim>\<open>PATCH /pages/{id}\<close> with \<^verbatim>\<open>{"properties": ...}\<close>): the properties named in
  the payload are replaced, every other property of the page is kept. A create leaves
  the existing page alone.
\<close>

definition apply_update :: "json \<Rightarrow> pydict \<Rightarrow> json" where
  "apply_update page up =
     (case page of
        JObj kvs \<Rightarrow>
          (case map_of kvs ''properties'' of
             Some (JObj props) \<Rightarrow> JObj (AList.update ''properties'' (JObj (dict_update props up)) kvs)
           | _ \<Rightarrow> page)
      | _ \<Rightarrow> page)"

definition dest_after :: "action \<Rightarrow> json \<Rightarrow> json" where
  "dest_after act page = (case act of Update pid up \<Rightarrow> apply_update page up | _ \<Rightarrow> page)"

text \<open>
  Successive runs of \<^verbatim>\<open>sync_repo\<close> over the versions \<open>its\<close> of one source issue, each run
  finding the page as the run before left it.
\<close>

fun sync_runs_n :: "pydict \<Rightarrow> pydict \<Rightarrow> pydict \<Rightarrow> json \<Rightarrow> pydict list \<Rightarrow> json" where
  "sync_runs_n sch pm prj page [] = page"
| "sync_runs_n sch pm prj page (it # its) =
     sync_runs_n sch pm prj (dest_after (sync_issue_n sch pm prj page it) page) its"

text \<open>
  The shape GitHub gives an issue record, for the fields the builders compute with. Every
  field may be missing. \<^verbatim>\<open>repository_url\<close> and \<^verbatim>\<open>body\<close> are strings or falsy
  (null); \<^verbatim>\<open>title\<close> is a string; \<^verbatim>\<open>labels\<close> is falsy or a list of objects with a
  string \<^verbatim>\<open>name\<close>; \<^verbatim>\<open>assignee\<close> is falsy or an object whose \<^verbatim>\<open>login\<close> is a string
  or null; \<^verbatim>\<open>milestone\<close> is falsy or an object whose \<^verbatim>\<open>title\<close> is a string.
  Nothing is asked of \<^verbatim>\<open>id\<close>, \<^verbatim>\<open>html_url\<close>, \<^verbatim>\<open>state\<close> and the timestamps.
\<close>

fun str_or_falsy :: "json \<Rightarrow> bool" where
  "str_or_falsy (JStr s) = True"
| "str_or_falsy v = (\<not> py_truthy v)"

fun is_str :: "json \<Rightarrow> bool" where
  "is_str (JStr s) = True"
| "is_str _ = False"

fun label_ok :: "json \<Rightarrow> bool" where
  "label_ok (JObj d) = (case map_of d ''name'' of Some (JStr s) \<Rightarrow> True | _ \<Rightarrow> False)"
| "label_ok _ = False"

fun labels_ok :: "json \<Rightarrow> bool" where
  "labels_ok (JArr xs) = list_all label_ok xs"
| "labels_ok v = (\<not> py_truthy v)"

fun assignee_ok :: "json \<Rightarrow> bool" where
  "assignee_ok (JObj d) =
     (case map_of d ''login'' of
        None \<Rightarrow> True | Some (JStr s) \<Rightarrow> True | Some JNull \<Rightarrow> True | Some _ \<Rightarrow> False)"
| "assignee_ok v = (\<not> py_truthy v)"

fun milestone_ok :: "json \<Rightarrow> bool" where
  "milestone_ok (JObj m) =
     (case map_of m ''title'' of None \<Rightarrow> True | Some (JStr t) \<Rightarrow> True | Some _ \<Rightarrow> False)"
| "milestone_ok v = (\<not> py_truthy v)"

definition github_typed :: "pydict \<Rightarrow> bool" where
  "github_typed issue \<longleftrightarrow>
     str_or_falsy (get_d issue ''repository_url'' (JStr []))
     \<and> is_str (get_d issue ''title'' (JStr []))
     \<and> str_or_falsy (get_d issue ''body'' JNull)
     \<and> labels_ok (get_d issue ''labels'' JNull)
     \<and> assignee_ok (get_d issue ''assignee'' JNull)
     \<and> milestone_ok (get_d issue ''milestone'' JNull)"

section \<open>Label parsing: which occurrence wins, and the case of keys and values\<close>

lemma map_of_fold_update:
  "map_of (fold (\<lambda>(k, v). AList.update k v) ps m) = map_of m ++ map_of (rev ps)"
  by (induction ps arbitrary: m)
     (auto simp: update_conv' map_add_def fun_eq_iff split: option.splits)

lemma parse_label_loop_strs:
  "parse_label_loop m (map JStr ls) =
     Inr (fold (\<lambda>(k, v). AList.update k v) (label_pairs ls) m)"
  by (induction ls arbitrary: m) (auto simp: label_pairs_def)

lemma split1_head_app: "c \<notin> set k \<Longrightarrow> split1_head c (k @ c # v) = k"
  by (simp add: split1_head_def takeWhile_append)

lemma split1_tail_app: "c \<notin> set k \<Longrightarrow> split1_tail c (k @ c # v) = v"
  by (induction k) (auto simp add: split1_tail_def)

lemma label_pairs_append: "label_pairs (xs @ ys) = label_pairs xs @ label_pairs ys"
  by (simp add: label_pairs_def)

lemma label_pairs_one:
  "CHR '':'' \<notin> set k \<Longrightarrow>
   label_pairs ((k @ CHR '':'' # v) # rest) = (py_lower k, v) # label_pairs rest"
  by (simp add: label_pairs_def has_char_def split1_head_app split1_tail_app)

text \<open>
  C1 (as the code has it). Parsing never fails on string labels, and the value read back
  for a key is the one of the LAST label that declares the key: whatever the labels
  \<open>ls\<close> before \<open>k:v\<close> declare, the map gives \<open>v\<close> for the lowercased \<open>k\<close> as long as no
  later label declares that key again. First-occurrence-wins is not the rule.
\<close>

theorem parse_label_map_last_wins:
  assumes "CHR '':'' \<notin> set k"
    and "\<forall>l \<in> set rest. has_char CHR '':'' l \<longrightarrow>
           py_lower (split1_head CHR '':'' l) \<noteq> py_lower k"
  shows "\<exists>m. parse_label_map (map JStr (ls @ [k @ '':'' @ v] @ rest)) = Inr m
             \<and> map_of m (py_lower k) = Some v"
proof -
  let ?ps = "label_pairs (ls @ [k @ '':'' @ v] @ rest)"
  have absent: "map_of (rev (label_pairs rest)) (py_lower k) = None"
    using assms(2) by (auto simp: label_pairs_def map_of_eq_None_iff image_iff)
  have "?ps = label_pairs ls @ [(py_lower k, v)] @ label_pairs rest"
    using assms(1) by (simp add: label_pairs_append label_pairs_one)
  then have "map_of (rev ?ps) (py_lower k) = Some v"
    using absent by (simp add: map_add_def)
  then have "map_of (fold (\<lambda>(k, v). AList.update k v) ?ps []) (py_lower k) = Some v"
    by (simp add: map_of_fold_update)
  moreover have "parse_label_map (map JStr (ls @ [k @ '':'' @ v] @ rest))
      = Inr (fold (\<lambda>(k, v). AList.update k v) ?ps [])"
    unfolding parse_label_map_def by (rule parse_label_loop_strs)
  ultimately show ?thesis by blast
qed

theorem parse_label_map_last_wins_witness:
  "\<exists>m. parse_label_map
          (map JStr ([''type:bug''] @ [''Type'' @ '':'' @ ''feature''] @ [''priority:high''])) = Inr m
       \<and> map_of m (py_lower ''Type'') = Some ''feature''"
proof -
  have a: "CHR '':'' \<notin> set ''Type''" by simp
  have b: "\<forall>l \<in> set [''priority:high'']. has_char CHR '':'' l \<longrightarrow>
             py_lower (split1_head CHR '':'' l) \<noteq> py_lower ''Type''"
    by code_simp
  show ?thesis using parse_label_map_last_wins [OF a b] .
qed

text \<open>
  C1 as stated fails: with two labels for the key \<open>type\<close>, the value read back is the
  later one, \<open>feature\<close>, not the earlier one, \<open>bug\<close>.
\<close>

theorem parse_label_map_first_wins_counterexample:
  "parse_label_map [JStr ''type:bug'', JStr ''type:feature''] = Inr [(''type'', ''feature'')]"
  by code_simp

lemma set_update_subset: "set (AList.update k v al) \<subseteq> insert (k, v) (set al)"
  by (induction al) auto

lemma set_fold_update:
  "kv \<in> set (fold (\<lambda>(k, v). AList.update k v) ps m) \<Longrightarrow> kv \<in> set m \<or> kv \<in> set ps"
proof (induction ps arbitrary: m)
  case Nil
  then show ?case by simp
next
  case (Cons p ps)
  obtain k v where p: "p = (k, v)" by (cases p)
  from Cons.prems have "kv \<in> set (fold (\<lambda>(k, v). AList.update k v) ps (AList.update k v m))"
    by (simp add: p)
  from Cons.IH [OF this] set_update_subset [of k v m] show ?case
    by (auto simp: p)
qed

lemma keys_fold_update:
  "fst ` set (fold (\<lambda>(k, v). AList.update k v) ps m) = fst ` set m \<union> fst ` set ps"
proof -
  have "dom (map_of (fold (\<lambda>(k, v). AList.update k v) ps m))
          = dom (map_of m) \<union> dom (map_of (rev ps))"
    by (simp add: map_of_fold_update Un_commute)
  then show ?thesis by (simp add: dom_map_of_conv_image_fst)
qed

lemma label_lookup_last:
  assumes "CHR '':'' \<notin> set k"
    and "\<forall>l \<in> set rest. has_char CHR '':'' l \<longrightarrow>
           py_lower (split1_head CHR '':'' l) \<noteq> py_lower k"
  shows "map_of (fold (\<lambda>(k, v). AList.update k v)
                  (label_pairs (pre @ [k @ '':'' @ v] @ rest)) []) (py_lower k) = Some v"
proof -
  let ?ps = "label_pairs (pre @ [k @ '':'' @ v] @ rest)"
  have absent: "map_of (rev (label_pairs rest)) (py_lower k) = None"
    using assms(2) by (auto simp: label_pairs_def map_of_eq_None_iff image_iff)
  have "?ps = label_pairs pre @ [(py_lower k, v)] @ label_pairs rest"
    using assms(1) by (simp add: label_pairs_append label_pairs_one)
  then have "map_of (rev ?ps) (py_lower k) = Some v"
    using absent by (simp add: map_add_def)
  then show ?thesis by (simp add: map_of_fold_update)
qed

lemma parse_label_map_strs_fold:
  "parse_label_map (map JStr ls) = Inr m \<Longrightarrow>
   m = fold (\<lambda>(k, v). AList.update k v) (label_pairs ls) []"
  unfolding parse_label_map_def parse_label_loop_strs by simp

text \<open>
  C10. On every list of string labels parsing succeeds, and the map holds exactly what
  the labels with a colon declare: every entry has as key the lowercased text before the
  first colon of some label and as value the text after that colon, as it is; every label
  with a colon populates its lowercased key; and the value read back for the lowercased
  key of a label \<open>k:v\<close> that no later label redeclares is \<open>v\<close>. The label is split at its
  first colon only, so the value keeps its case and any further colons.
\<close>

theorem parse_label_map_key_lowered:
  "(\<exists>m. parse_label_map (map JStr ls) = Inr m)
   \<and> (parse_label_map (map JStr ls) = Inr m \<longrightarrow>
        (\<forall>key val. (key, val) \<in> set m \<longrightarrow>
           (\<exists>l \<in> set ls. has_char CHR '':'' l
              \<and> key = py_lower (split1_head CHR '':'' l) \<and> val = split1_tail CHR '':'' l))
        \<and> (\<forall>l \<in> set ls. has_char CHR '':'' l \<longrightarrow>
              py_lower (split1_head CHR '':'' l) \<in> fst ` set m)
        \<and> (CHR '':'' \<notin> set k \<and> ls = pre @ [k @ '':'' @ v] @ rest
             \<and> (\<forall>l \<in> set rest. has_char CHR '':'' l \<longrightarrow>
                   py_lower (split1_head CHR '':'' l) \<noteq> py_lower k) \<longrightarrow>
             map_of m (py_lower k) = Some v))
   \<and> (CHR '':'' \<notin> set k \<longrightarrow>
        split1_head CHR '':'' (k @ '':'' @ v) = k \<and> split1_tail CHR '':'' (k @ '':'' @ v) = v)"
proof (intro conjI impI allI ballI)
  show "\<exists>m. parse_label_map (map JStr ls) = Inr m"
    by (simp add: parse_label_map_def parse_label_loop_strs)
next
  fix key val
  assume p: "parse_label_map (map JStr ls) = Inr m" and kv: "(key, val) \<in> set m"
  note m = parse_label_map_strs_fold [OF p]
  from kv have "(key, val) \<in> set (fold (\<lambda>(k, v). AList.update k v) (label_pairs ls) [])"
    by (subst m [symmetric])
  from set_fold_update [OF this] have "(key, val) \<in> set (label_pairs ls)" by simp
  then show "\<exists>l \<in> set ls. has_char CHR '':'' l
              \<and> key = py_lower (split1_head CHR '':'' l) \<and> val = split1_tail CHR '':'' l"
    by (auto simp: label_pairs_def)
next
  fix l
  assume p: "parse_label_map (map JStr ls) = Inr m" and l: "l \<in> set ls" "has_char CHR '':'' l"
  note m = parse_label_map_strs_fold [OF p]
  from l have "(py_lower (split1_head CHR '':'' l), split1_tail CHR '':'' l) \<in> set (label_pairs ls)"
    by (auto simp: label_pairs_def)
  then have "py_lower (split1_head CHR '':'' l) \<in> fst ` set (label_pairs ls)" by force
  then have "py_lower (split1_head CHR '':'' l)
      \<in> fst ` set (fold (\<lambda>(k, v). AList.update k v) (label_pairs ls) [])"
    unfolding keys_fold_update by simp
  then show "py_lower (split1_head CHR '':'' l) \<in> fst ` set m"
    by (subst m)
next
  assume p: "parse_label_map (map JStr ls) = Inr m"
    and h: "CHR '':'' \<notin> set k \<and> ls = pre @ [k @ '':'' @ v] @ rest
             \<and> (\<forall>l \<in> set rest. has_char CHR '':'' l \<longrightarrow>
                   py_lower (split1_head CHR '':'' l) \<noteq> py_lower k)"
  note m = parse_label_map_strs_fold [OF p]
  from h have 1: "CHR '':'' \<notin> set k" and 2: "ls = pre @ [k @ '':'' @ v] @ rest"
    and 3: "\<forall>l \<in> set rest. has_char CHR '':'' l \<longrightarrow>
                   py_lower (split1_head CHR '':'' l) \<noteq> py_lower k" by blast+
  from label_lookup_last [OF 1 3, of pre v] show "map_of m (py_lower k) = Some v"
    by (subst m) (simp only: 2)
next
  assume "CHR '':'' \<notin> set k"
  then show "split1_head CHR '':'' (k @ '':'' @ v) = k" "split1_tail CHR '':'' (k @ '':'' @ v) = v"
    by (simp_all add: split1_head_app split1_tail_app)
qed

theorem parse_label_map_key_lowered_witness:
  "parse_label_map (map JStr [''Type:Feature:X y'', ''priority:high''])
     = Inr [(''type'', ''Feature:X y''), (''priority'', ''high'')]
   \<and> CHR '':'' \<notin> set ''Type''
   \<and> map_of [(''type'', ''Feature:X y''), (''priority'', ''high'')] (py_lower ''Type'')
       = Some ''Feature:X y''
   \<and> py_lower (split1_head CHR '':'' ''priority:high'')
       \<in> fst ` set [(''type'', ''Feature:X y''), (''priority'', ''high'')]
   \<and> (\<exists>l. l \<in> set [''Type:Feature:X y'', ''priority:high''] \<and> has_char CHR '':'' l
          \<and> ''type'' = py_lower (split1_head CHR '':'' l)
          \<and> ''Feature:X y'' = split1_tail CHR '':'' l)
   \<and> split1_head CHR '':'' (''Type'' @ '':'' @ ''Feature:X y'') = ''Type''
   \<and> split1_tail CHR '':'' (''Type'' @ '':'' @ ''Feature:X y'') = ''Feature:X y''"
proof -
  let ?ls = "[''Type:Feature:X y'', ''priority:high'']"
  let ?m = "[(''type'', ''Feature:X y''), (''priority'', ''high'')]"
  have p: "parse_label_map (map JStr ?ls) = Inr ?m" by code_simp
  have c: "CHR '':'' \<notin> set ''Type''" by simp
  have e: "?ls = [] @ [''Type'' @ '':'' @ ''Feature:X y''] @ [''priority:high'']" by simp
  have r: "\<forall>l \<in> set [''priority:high'']. has_char CHR '':'' l \<longrightarrow>
             py_lower (split1_head CHR '':'' l) \<noteq> py_lower ''Type''"
    by code_simp
  have i1: "(''type'', ''Feature:X y'') \<in> set ?m" by simp
  have i2: "''priority:high'' \<in> set ?ls" by simp
  have i3: "has_char CHR '':'' ''priority:high''" by code_simp
  note T = parse_label_map_key_lowered
    [of ?ls ?m "''Type''" "[]" "''Feature:X y''" "[''priority:high'']"]
  note A = T [THEN conjunct2, THEN conjunct1, THEN mp, OF p]
  have a1: "\<exists>l. l \<in> set ?ls \<and> has_char CHR '':'' l
          \<and> ''type'' = py_lower (split1_head CHR '':'' l)
          \<and> ''Feature:X y'' = split1_tail CHR '':'' l"
    using A [THEN conjunct1, THEN spec, THEN spec, THEN mp, OF i1] unfolding Bex_def .
  have a2: "py_lower (split1_head CHR '':'' ''priority:high'') \<in> fst ` set ?m"
    using A [THEN conjunct2, THEN conjunct1, THEN bspec, OF i2, THEN mp, OF i3] .
  have a3: "map_of ?m (py_lower ''Type'') = Some ''Feature:X y''"
    using A [THEN conjunct2, THEN conjunct2, THEN mp, OF conjI [OF c conjI [OF e r]]] .
  note B = T [THEN conjunct2, THEN conjunct2, THEN mp, OF c]
  show ?thesis
    by (rule conjI [OF p conjI [OF c conjI [OF a3 conjI [OF a2 conjI [OF a1 B]]]]])
qed

section \<open>Facts about the builders\<close>

lemma bind_err_simps [simp]:
  "bind_err (Inl e) f = Inl e"
  "bind_err (Inr v) f = f v"
  by (simp_all add: bind_err_def)

lemma bind_err_eq_Inr: "bind_err m f = Inr y \<longleftrightarrow> (\<exists>v. m = Inr v \<and> f v = Inr y)"
  by (cases m) simp_all

lemma map_of_dict_update1 [simp]:
  "map_of (dict_update props [(k, v)]) = (map_of props)(k \<mapsto> v)"
  by (simp add: dict_update_def update_conv')

lemma select_payload_shape:
  "\<exists>x. select_payload sch p v = [(p, x)]"
  by (simp add: select_payload_def Let_def)

lemma map_of_select_payload [simp]:
  "k \<noteq> p \<Longrightarrow> map_of (dict_update props (select_payload sch p v)) k = map_of props k"
  using select_payload_shape [of sch p v] by auto

lemma map_of_label_select [simp]:
  "k \<noteq> prop \<Longrightarrow> map_of (label_select sch lm key prop props) k = map_of props k"
  by (simp add: label_select_def split: option.splits)

lemma map_of_sprint_select [simp]:
  "k \<noteq> ''Sprint'' \<Longrightarrow> map_of (sprint_select sch sv props) k = map_of props k"
  by (simp add: sprint_select_def split: option.splits)

lemma map_of_date_set [simp]:
  "map_of (date_set prop d props) k =
     (if k = prop \<and> py_truthy d then Some (date_val d) else map_of props k)"
  by (simp add: date_set_def update_conv')

lemma people_payload_n_shape:
  "people_payload_n sch pm p a = Inr pp \<Longrightarrow> \<exists>x. pp = [(p, x)]"
  by (auto simp: people_payload_n_def Let_def bind_err_eq_Inr split: if_splits)

lemma people_payload_i_shape:
  "people_payload_i sch pm p a = Inr pp \<Longrightarrow> \<exists>x. pp = [(p, x)]"
  by (auto simp: people_payload_i_def Let_def bind_err_eq_Inr split: if_splits)

lemma append_labels_note_frame:
  "append_labels_note sch labels props = Inr props' \<Longrightarrow> k \<noteq> ''Notes'' \<Longrightarrow>
   map_of props' k = map_of props k"
  by (auto simp: append_labels_note_def bind_err_eq_Inr update_conv' split: if_splits)

lemma append_assignee_note_n_frame:
  "append_assignee_note_n sch pm a props = Inr props' \<Longrightarrow> k \<noteq> ''Notes'' \<Longrightarrow>
   map_of props' k = map_of props k"
  by (auto simp: append_assignee_note_n_def bind_err_eq_Inr update_conv' split: if_splits)

lemma append_assignee_note_i_frame:
  "append_assignee_note_i sch pm a props = Inr props' \<Longrightarrow> k \<noteq> ''Notes'' \<Longrightarrow>
   map_of props' k = map_of props k"
  by (auto simp: append_assignee_note_i_def bind_err_eq_Inr update_conv' split: if_splits)

lemma map_of_update_opt_msp_n:
  "k \<noteq> p \<Longrightarrow> map_of (update_opt (multi_select_payload_n sch p vs) props) k = map_of props k"
  by (simp add: update_opt_def multi_select_payload_n_def Let_def)

lemma map_of_update_opt_msp_i:
  "k \<noteq> p \<Longrightarrow> map_of (update_opt (multi_select_payload_i sch p vs) props) k = map_of props k"
  by (simp add: update_opt_def multi_select_payload_i_def Let_def)

lemma build_n_split:
  assumes "build_properties_n sch pm prj issue = Inr props"
  obtains repo_full title labels lm a sv x mid where
    "issue_repo_full issue = Inr repo_full"
    "py_slice200 (get_d issue ''title'' (JStr [])) = Inr title"
    "issue_labels issue = Inr labels"
    "parse_label_map labels = Inr lm"
    "issue_assignee issue = Inr a"
    "resolve_sprint_from_issue labels (get_d issue ''milestone'' JNull) = Inr sv"
    "people_payload_n sch pm ''Assigned To'' a = Inr [(''Assigned To'', x)]"
    "append_labels_note sch labels
       (props_tail issue (or_empty (get_d issue ''body'' JNull))
         (dict_update
           (sprint_select sch sv
             (props_head multi_select_payload_n sch prj issue (short_of repo_full) title labels lm))
           [(''Assigned To'', x)])) = Inr mid"
    "append_assignee_note_n sch pm a mid = Inr props"
proof -
  from assms obtain repo_full title labels lm a sv pp mid where h:
    "issue_repo_full issue = Inr repo_full"
    "py_slice200 (get_d issue ''title'' (JStr [])) = Inr title"
    "issue_labels issue = Inr labels"
    "parse_label_map labels = Inr lm"
    "issue_assignee issue = Inr a"
    "resolve_sprint_from_issue labels (get_d issue ''milestone'' JNull) = Inr sv"
    "people_payload_n sch pm ''Assigned To'' a = Inr pp"
    "append_labels_note sch labels
       (props_tail issue (or_empty (get_d issue ''body'' JNull))
         (dict_update
           (sprint_select sch sv
             (props_head multi_select_payload_n sch prj issue (short_of repo_full) title labels lm))
           pp)) = Inr mid"
    "append_assignee_note_n sch pm a mid = Inr props"
    unfolding build_properties_n_def bind_err_eq_Inr by blast
  from people_payload_n_shape [OF h(7)] obtain x where "pp = [(''Assigned To'', x)]" by blast
  with h that show thesis by blast
qed

lemma build_i_split:
  assumes "build_properties_i sch pm prj issue repo_full = Inr props"
  obtains title labels lm a sv x mid where
    "py_slice200 (get_d issue ''title'' (JStr [])) = Inr title"
    "issue_labels issue = Inr labels"
    "parse_label_map labels = Inr lm"
    "issue_assignee issue = Inr a"
    "sprint_i labels (get_d issue ''milestone'' JNull) = Inr sv"
    "people_payload_i sch pm ''Assigned To'' a = Inr [(''Assigned To'', x)]"
    "append_labels_note sch labels
       (props_tail issue (or_empty (get_d issue ''body'' JNull))
         (dict_update
           (sprint_select sch sv
             (props_head multi_select_payload_i sch prj issue (short_of repo_full) title labels lm))
           [(''Assigned To'', x)])) = Inr mid"
    "append_assignee_note_i sch pm a mid = Inr props"
proof -
  from assms obtain title labels lm a sv pp mid where h:
    "py_slice200 (get_d issue ''title'' (JStr [])) = Inr title"
    "issue_labels issue = Inr labels"
    "parse_label_map labels = Inr lm"
    "issue_assignee issue = Inr a"
    "sprint_i labels (get_d issue ''milestone'' JNull) = Inr sv"
    "people_payload_i sch pm ''Assigned To'' a = Inr pp"
    "append_labels_note sch labels
       (props_tail issue (or_empty (get_d issue ''body'' JNull))
         (dict_update
           (sprint_select sch sv
             (props_head multi_select_payload_i sch prj issue (short_of repo_full) title labels lm))
           pp)) = Inr mid"
    "append_assignee_note_i sch pm a mid = Inr props"
    unfolding build_properties_i_def bind_err_eq_Inr by blast
  from people_payload_i_shape [OF h(6)] obtain x where "pp = [(''Assigned To'', x)]" by blast
  with h that show thesis by blast
qed

lemma props_tail_lookup:
  "map_of (props_tail issue body props) k =
     (if k = ''Updated At'' \<and> py_truthy (get_d issue ''updated_at'' JNull)
        then Some (date_val (get_d issue ''updated_at'' JNull))
      else if k = ''Created At'' \<and> py_truthy (get_d issue ''created_at'' JNull)
        then Some (date_val (get_d issue ''created_at'' JNull))
      else if k = ''Notes'' then Some (text_val body)
      else map_of props k)"
  by (simp add: props_tail_def update_conv')

lemma props_head_n_id:
  "map_of (props_head multi_select_payload_n sch prj issue sr title labels lm) ''GitHub ID''
     = Some (JObj [(''number'', get_d issue ''id'' JNull)])"
  by (simp add: props_head_def update_conv' map_of_update_opt_msp_n)

lemma props_head_n_url:
  "map_of (props_head multi_select_payload_n sch prj issue sr title labels lm) ''GitHub Link''
     = Some (JObj [(''url'', get_d issue ''html_url'' JNull)])"
  by (simp add: props_head_def update_conv' map_of_update_opt_msp_n)

lemma props_head_n_dates:
  "map_of (props_head multi_select_payload_n sch prj issue sr title labels lm) ''Created At'' = None"
  "map_of (props_head multi_select_payload_n sch prj issue sr title labels lm) ''Updated At'' = None"
  by (simp_all add: props_head_def update_conv' map_of_update_opt_msp_n)

section \<open>External id, url and timestamps\<close>

text \<open>
  C7 (as the code has it). Whenever the builder returns, the payload holds the keys
  \<open>GitHub ID\<close> and \<open>GitHub Link\<close> unconditionally: their values are the source's
  \<^verbatim>\<open>id\<close> and \<^verbatim>\<open>html_url\<close>, or null when the source has none (never another value).
  \<open>Created At\<close> and \<open>Updated At\<close> are present exactly when the source's timestamp is
  present and truthy, and then carry it.
\<close>

theorem build_properties_id_url_dates:
  assumes "build_properties_n sch pm prj issue = Inr props"
  shows "map_of props ''GitHub ID'' = Some (JObj [(''number'', get_d issue ''id'' JNull)])
       \<and> map_of props ''GitHub Link'' = Some (JObj [(''url'', get_d issue ''html_url'' JNull)])
       \<and> map_of props ''Created At'' =
           (if py_truthy (get_d issue ''created_at'' JNull)
            then Some (date_val (get_d issue ''created_at'' JNull)) else None)
       \<and> map_of props ''Updated At'' =
           (if py_truthy (get_d issue ''updated_at'' JNull)
            then Some (date_val (get_d issue ''updated_at'' JNull)) else None)"
proof -
  from assms obtain repo_full title labels lm a sv x mid where
    mid: "append_labels_note sch labels
       (props_tail issue (or_empty (get_d issue ''body'' JNull))
         (dict_update
           (sprint_select sch sv
             (props_head multi_select_payload_n sch prj issue (short_of repo_full) title labels lm))
           [(''Assigned To'', x)])) = Inr mid"
    and fin: "append_assignee_note_n sch pm a mid = Inr props"
    by (rule build_n_split)
  have frame: "k \<noteq> ''Notes'' \<Longrightarrow> map_of props k =
      map_of (props_tail issue (or_empty (get_d issue ''body'' JNull))
         (dict_update
           (sprint_select sch sv
             (props_head multi_select_payload_n sch prj issue (short_of repo_full) title labels lm))
           [(''Assigned To'', x)])) k" for k
    using append_assignee_note_n_frame [OF fin] append_labels_note_frame [OF mid] by simp
  show ?thesis
    by (simp add: frame props_tail_lookup props_head_n_id props_head_n_url props_head_n_dates)
qed

theorem build_properties_id_url_dates_witness:
  "\<exists>props. build_properties_n [] [] []
       [(''id'', JNum 101), (''created_at'', JStr ''2024-05-01T10:00:00Z'')] = Inr props
     \<and> map_of props ''GitHub ID'' = Some (JObj [(''number'', JNum 101)])
     \<and> map_of props ''GitHub Link'' = Some (JObj [(''url'', JNull)])
     \<and> map_of props ''Created At'' = Some (date_val (JStr ''2024-05-01T10:00:00Z''))
     \<and> map_of props ''Updated At'' = None"
proof -
  let ?issue = "[(''id'', JNum 101), (''created_at'', JStr ''2024-05-01T10:00:00Z'')]"
  have h: "build_properties_n [] [] [] ?issue =
    Inr [(''Task'', title_val (JStr [])),
         (''GitHub ID'', JObj [(''number'', JNum 101)]),
         (''Repo'', text_val (JStr ''unknown'')),
         (''Project'', text_val (JStr ''All'')),
         (''GitHub Link'', JObj [(''url'', JNull)]),
         (''Status'', text_val (JStr ''Backlog'')),
         (''Assigned To'', text_val (JStr [])),
         (''Notes'', text_val (JStr [])),
         (''Created At'', date_val (JStr ''2024-05-01T10:00:00Z''))]"
    by code_simp
  have g: "get_d ?issue ''id'' JNull = JNum 101" "get_d ?issue ''html_url'' JNull = JNull"
    "get_d ?issue ''created_at'' JNull = JStr ''2024-05-01T10:00:00Z''"
    "get_d ?issue ''updated_at'' JNull = JNull"
    by (simp_all add: get_d_def)
  show ?thesis
    using build_properties_id_url_dates [OF h] h unfolding g by simp
qed

text \<open>
  C7 as stated fails: for a record with neither \<^verbatim>\<open>id\<close> nor \<^verbatim>\<open>html_url\<close> the payload
  still has the keys \<open>GitHub ID\<close> and \<open>GitHub Link\<close>, each carrying null.
\<close>

theorem build_properties_null_id_url_counterexample:
  "build_properties_n [] [] [] [] =
    Inr [(''Task'', title_val (JStr [])),
         (''GitHub ID'', JObj [(''number'', JNull)]),
         (''Repo'', text_val (JStr ''unknown'')),
         (''Project'', text_val (JStr ''All'')),
         (''GitHub Link'', JObj [(''url'', JNull)]),
         (''Status'', text_val (JStr ''Backlog'')),
         (''Assigned To'', text_val (JStr [])),
         (''Notes'', text_val (JStr []))]"
  by code_simp

lemma props_head_labels:
  assumes "schema_get sch ''Labels'' = JStr ''multi_select''"
  shows "map_of (props_head multi_select_payload_n sch prj issue sr title [] lm) ''Labels''
           = Some (multi_val [])"
    and "map_of (props_head multi_select_payload_i sch prj issue sr title [] lm) ''Labels''
           = Some (multi_val [])"
  using assms
  by (simp_all add: props_head_def update_opt_def multi_select_payload_n_def
        multi_select_payload_i_def)

section \<open>Empty label list\<close>

text \<open>
  C8. When the issue has no labels and the schema kind of \<open>Labels\<close> is
  \<^verbatim>\<open>multi_select\<close>, every payload either builder returns has \<open>Labels\<close> set to the
  explicit empty multi-choice value; the key is not omitted.
\<close>

theorem empty_labels_cleared:
  assumes "issue_labels issue = Inr []"
    and "schema_get sch ''Labels'' = JStr ''multi_select''"
  shows "(\<forall>props. build_properties_n sch pm prj issue = Inr props \<longrightarrow>
            map_of props ''Labels'' = Some (JObj [(''multi_select'', JArr [])]))
       \<and> (\<forall>props. build_properties_i sch pm prj issue repo_full = Inr props \<longrightarrow>
            map_of props ''Labels'' = Some (JObj [(''multi_select'', JArr [])]))"
proof (intro conjI allI impI)
  fix props assume b: "build_properties_n sch pm prj issue = Inr props"
  from b obtain repo_full title labels lm a sv x mid where
    l: "issue_labels issue = Inr labels" and
    mid: "append_labels_note sch labels
       (props_tail issue (or_empty (get_d issue ''body'' JNull))
         (dict_update
           (sprint_select sch sv
             (props_head multi_select_payload_n sch prj issue (short_of repo_full) title labels lm))
           [(''Assigned To'', x)])) = Inr mid"
    and fin: "append_assignee_note_n sch pm a mid = Inr props"
    by (rule build_n_split)
  from l assms(1) have e: "labels = []" by simp
  show "map_of props ''Labels'' = Some (JObj [(''multi_select'', JArr [])])"
    using append_assignee_note_n_frame [OF fin, of "''Labels''"]
      append_labels_note_frame [OF mid, of "''Labels''"] props_head_labels(1) [OF assms(2)]
    by (simp add: e props_tail_lookup multi_val_def)
next
  fix props assume b: "build_properties_i sch pm prj issue repo_full = Inr props"
  from b obtain title labels lm a sv x mid where
    l: "issue_labels issue = Inr labels" and
    mid: "append_labels_note sch labels
       (props_tail issue (or_empty (get_d issue ''body'' JNull))
         (dict_update
           (sprint_select sch sv
             (props_head multi_select_payload_i sch prj issue (short_of repo_full) title labels lm))
           [(''Assigned To'', x)])) = Inr mid"
    and fin: "append_assignee_note_i sch pm a mid = Inr props"
    by (rule build_i_split)
  from l assms(1) have e: "labels = []" by simp
  show "map_of props ''Labels'' = Some (JObj [(''multi_select'', JArr [])])"
    using append_assignee_note_i_frame [OF fin, of "''Labels''"]
      append_labels_note_frame [OF mid, of "''Labels''"] props_head_labels(2) [OF assms(2)]
    by (simp add: e props_tail_lookup multi_val_def)
qed

theorem empty_labels_cleared_witness:
  "issue_labels [(''id'', JNum 101), (''labels'', JArr [])] = Inr []
   \<and> schema_get [(''Labels'', JStr ''multi_select'')] ''Labels'' = JStr ''multi_select''
   \<and> (\<exists>props. build_properties_n [(''Labels'', JStr ''multi_select'')] [] []
                  [(''id'', JNum 101), (''labels'', JArr [])] = Inr props
          \<and> map_of props ''Labels'' = Some (JObj [(''multi_select'', JArr [])]))
   \<and> (\<exists>props. build_properties_i [(''Labels'', JStr ''multi_select'')] [] []
                  [(''id'', JNum 101), (''labels'', JArr [])] ''o/r'' = Inr props
          \<and> map_of props ''Labels'' = Some (JObj [(''multi_select'', JArr [])]))"
proof -
  let ?sch = "[(''Labels'', JStr ''multi_select'')]"
  let ?issue = "[(''id'', JNum 101), (''labels'', JArr [])]"
  have a: "issue_labels ?issue = Inr []" by code_simp
  have b: "schema_get ?sch ''Labels'' = JStr ''multi_select''" by code_simp
  have n: "build_properties_n ?sch [] [] ?issue =
    Inr [(''Task'', title_val (JStr [])),
         (''GitHub ID'', JObj [(''number'', JNum 101)]),
         (''Repo'', text_val (JStr ''unknown'')),
         (''Project'', text_val (JStr ''All'')),
         (''GitHub Link'', JObj [(''url'', JNull)]),
         (''Status'', text_val (JStr ''Backlog'')),
         (''Labels'', JObj [(''multi_select'', JArr [])]),
         (''Assigned To'', text_val (JStr [])),
         (''Notes'', text_val (JStr []))]"
    by code_simp
  have i: "build_properties_i ?sch [] [] ?issue ''o/r'' =
    Inr [(''Task'', title_val (JStr [])),
         (''GitHub ID'', JObj [(''number'', JNum 101)]),
         (''Repo'', text_val (JStr ''r'')),
         (''Project'', text_val (JStr ''All'')),
         (''GitHub Link'', JObj [(''url'', JNull)]),
         (''Status'', text_val (JStr ''Backlog'')),
         (''Labels'', JObj [(''multi_select'', JArr [])]),
         (''Assigned To'', text_val (JStr [])),
         (''Notes'', text_val (JStr []))]"
    by code_simp
  show ?thesis
    using empty_labels_cleared [OF a b, of "[]" "[]" "''o/r''"] a b n i by blast
qed

section \<open>The sprint value\<close>

lemma sprint_label_n_strs:
  "sprint_label_n (map JStr ls) =
     Inr (case sprint_hit_n ls of
            Some l \<Rightarrow> Some (''Sprint '' @ sprint_label_value l) | None \<Rightarrow> None)"
  by (induction ls)
     (auto simp: sprint_hit_n_def is_sprint_label_def sprint_label_value_def Let_def)

lemma sprint_label_i_strs:
  "sprint_label_i (map JStr ls) =
     Inr (case sprint_hit_i ls of
            Some l \<Rightarrow> Some (''Sprint '' @ sprint_label_value l) | None \<Rightarrow> None)"
  by (induction ls)
     (auto simp: sprint_hit_i_def is_sprint_label_def sprint_label_value_def)

lemma py_strip_Nil [simp]: "py_strip [] = []"
  by (simp add: py_strip_def)

lemma sprint_milestone_n_result:
  "sprint_milestone_n ms = Inr r \<Longrightarrow> r = milestone_title ms"
  by (cases ms)
     (auto simp: sprint_milestone_n_def milestone_title_def get_d_def bind_err_eq_Inr Let_def
           split: if_splits option.splits json.splits)

lemma resolve_sprint_result:
  assumes "resolve_sprint_from_issue (map JStr ls) ms = Inr sv"
  shows "sv = sprint_value_n ls ms"
  using assms sprint_milestone_n_result [of ms sv]
  by (auto simp: resolve_sprint_from_issue_def sprint_label_n_strs sprint_value_n_def
           split: option.splits)

lemma sprint_i_result:
  assumes "sprint_i (map JStr ls) ms = Inr sv"
  shows "sv = sprint_value_i ls ms"
  using assms
  by (cases ms)
     (auto simp: sprint_i_def sprint_label_i_strs sprint_value_i_def milestone_title_def
                 get_d_def bind_err_eq_Inr Let_def
           split: option.splits if_splits json.splits)

lemma map_of_select_payload_same:
  "map_of (dict_update props (select_payload sch p v)) p = map_of (select_payload sch p v) p"
  using select_payload_shape [of sch p v] by auto

lemma sprint_value_n_nonempty: "sprint_value_n ls ms = Some v \<Longrightarrow> v \<noteq> []"
  by (auto simp: sprint_value_n_def milestone_title_def
           split: option.splits json.splits if_splits)

lemma sprint_value_i_nonempty: "sprint_value_i ls ms = Some v \<Longrightarrow> v \<noteq> []"
  by (auto simp: sprint_value_i_def milestone_title_def
           split: option.splits json.splits if_splits)

lemma props_head_sprint:
  "map_of (props_head multi_select_payload_n sch prj issue sr title labels lm) ''Sprint'' = None"
  "map_of (props_head multi_select_payload_i sch prj issue sr title labels lm) ''Sprint'' = None"
  by (simp_all add: props_head_def update_conv' map_of_update_opt_msp_n map_of_update_opt_msp_i)

lemma sprint_select_lookup:
  "map_of props ''Sprint'' = None \<Longrightarrow>
   map_of (sprint_select sch sv props) ''Sprint'' =
     (case sv of
        Some v \<Rightarrow> if v \<noteq> [] then map_of (select_payload sch ''Sprint'' (JStr v)) ''Sprint'' else None
      | None \<Rightarrow> None)"
  by (simp add: sprint_select_def map_of_select_payload_same split: option.splits)

text \<open>
  C5 (as the code has it). With string labels, whenever a builder returns, the Sprint
  entry of the payload is the kind-adaptive encoding of the derived sprint value, and is
  absent when there is none. In notion\_sync.py the value comes from the first label that
  starts with \<^verbatim>\<open>sprint:\<close> (case-insensitively) and has a non-blank value, as
  \<open>Sprint\<close> followed by that value stripped of surrounding whitespace; failing that, from
  the milestone's title stripped of surrounding whitespace, when it is a non-blank string.
  In issue\_to\_notion.py the first label that starts with \<^verbatim>\<open>sprint:\<close> decides even
  when its value is blank.
\<close>

theorem sprint_payload_rule:
  assumes "issue_labels issue = Inr (map JStr ls)"
  shows "(\<forall>props. build_properties_n sch pm prj issue = Inr props \<longrightarrow>
            map_of props ''Sprint'' =
              (case sprint_value_n ls (get_d issue ''milestone'' JNull) of
                 Some v \<Rightarrow> map_of (select_payload sch ''Sprint'' (JStr v)) ''Sprint''
               | None \<Rightarrow> None))
       \<and> (\<forall>props. build_properties_i sch pm prj issue repo_full = Inr props \<longrightarrow>
            map_of props ''Sprint'' =
              (case sprint_value_i ls (get_d issue ''milestone'' JNull) of
                 Some v \<Rightarrow> map_of (select_payload sch ''Sprint'' (JStr v)) ''Sprint''
               | None \<Rightarrow> None))"
proof (intro conjI allI impI)
  fix props assume b: "build_properties_n sch pm prj issue = Inr props"
  from b obtain repo_full title labels lm a sv x mid where
    l: "issue_labels issue = Inr labels" and
    sv: "resolve_sprint_from_issue labels (get_d issue ''milestone'' JNull) = Inr sv" and
    mid: "append_labels_note sch labels
       (props_tail issue (or_empty (get_d issue ''body'' JNull))
         (dict_update
           (sprint_select sch sv
             (props_head multi_select_payload_n sch prj issue (short_of repo_full) title labels lm))
           [(''Assigned To'', x)])) = Inr mid"
    and fin: "append_assignee_note_n sch pm a mid = Inr props"
    by (rule build_n_split)
  from l assms have e: "labels = map JStr ls" by simp
  have v: "sv = sprint_value_n ls (get_d issue ''milestone'' JNull)"
    using sv unfolding e by (rule resolve_sprint_result)
  have "map_of props ''Sprint'' =
      map_of (sprint_select sch sv
        (props_head multi_select_payload_n sch prj issue (short_of repo_full) title labels lm))
        ''Sprint''"
    using append_assignee_note_n_frame [OF fin, of "''Sprint''"]
      append_labels_note_frame [OF mid, of "''Sprint''"]
    by (simp add: props_tail_lookup)
  then show "map_of props ''Sprint'' =
      (case sprint_value_n ls (get_d issue ''milestone'' JNull) of
         Some v \<Rightarrow> map_of (select_payload sch ''Sprint'' (JStr v)) ''Sprint''
       | None \<Rightarrow> None)"
    using sprint_value_n_nonempty [of ls "get_d issue ''milestone'' JNull"]
    by (simp add: sprint_select_lookup props_head_sprint v split: option.splits)
next
  fix props assume b: "build_properties_i sch pm prj issue repo_full = Inr props"
  from b obtain title labels lm a sv x mid where
    l: "issue_labels issue = Inr labels" and
    sv: "sprint_i labels (get_d issue ''milestone'' JNull) = Inr sv" and
    mid: "append_labels_note sch labels
       (props_tail issue (or_empty (get_d issue ''body'' JNull))
         (dict_update
           (sprint_select sch sv
             (props_head multi_select_payload_i sch prj issue (short_of repo_full) title labels lm))
           [(''Assigned To'', x)])) = Inr mid"
    and fin: "append_assignee_note_i sch pm a mid = Inr props"
    by (rule build_i_split)
  from l assms have e: "labels = map JStr ls" by simp
  have v: "sv = sprint_value_i ls (get_d issue ''milestone'' JNull)"
    using sv unfolding e by (rule sprint_i_result)
  have "map_of props ''Sprint'' =
      map_of (sprint_select sch sv
        (props_head multi_select_payload_i sch prj issue (short_of repo_full) title labels lm))
        ''Sprint''"
    using append_assignee_note_i_frame [OF fin, of "''Sprint''"]
      append_labels_note_frame [OF mid, of "''Sprint''"]
    by (simp add: props_tail_lookup)
  then show "map_of props ''Sprint'' =
      (case sprint_value_i ls (get_d issue ''milestone'' JNull) of
         Some v \<Rightarrow> map_of (select_payload sch ''Sprint'' (JStr v)) ''Sprint''
       | None \<Rightarrow> None)"
    using sprint_value_i_nonempty [of ls "get_d issue ''milestone'' JNull"]
    by (simp add: sprint_select_lookup props_head_sprint v split: option.splits)
qed

text \<open>
  C5 as stated fails: a \<^verbatim>\<open>sprint:\<close> label with a blank value does not decide in
  notion\_sync.py, and the milestone title is not taken verbatim but stripped.
\<close>

theorem sprint_verbatim_counterexample:
  "resolve_sprint_from_issue [JStr ''sprint: ''] (JObj [(''title'', JStr '' M1 '')])
     = Inr (Some ''M1'')"
  by code_simp

theorem sprint_payload_rule_witness:
  "issue_labels
     [(''labels'', JArr [JObj [(''name'', JStr ''bug'')], JObj [(''name'', JStr ''Sprint: 3 '')]]),
      (''milestone'', JObj [(''title'', JStr ''M1'')])]
     = Inr (map JStr [''bug'', ''Sprint: 3 ''])
   \<and> (\<exists>props. build_properties_n [(''Sprint'', JStr ''select''), (''Labels'', JStr ''multi_select'')] [] []
          [(''labels'', JArr [JObj [(''name'', JStr ''bug'')], JObj [(''name'', JStr ''Sprint: 3 '')]]),
           (''milestone'', JObj [(''title'', JStr ''M1'')])] = Inr props
        \<and> map_of props ''Sprint'' = Some (select_val (JStr ''Sprint 3'')))
   \<and> (\<exists>props. build_properties_i [(''Sprint'', JStr ''select''), (''Labels'', JStr ''multi_select'')] [] []
          [(''labels'', JArr [JObj [(''name'', JStr ''bug'')], JObj [(''name'', JStr ''Sprint: 3 '')]]),
           (''milestone'', JObj [(''title'', JStr ''M1'')])] ''o/r'' = Inr props
        \<and> map_of props ''Sprint'' = Some (select_val (JStr ''Sprint 3'')))"
proof -
  let ?sch = "[(''Sprint'', JStr ''select''), (''Labels'', JStr ''multi_select'')]"
  let ?issue = "[(''labels'', JArr [JObj [(''name'', JStr ''bug'')], JObj [(''name'', JStr ''Sprint: 3 '')]]),
                 (''milestone'', JObj [(''title'', JStr ''M1'')])]"
  have a: "issue_labels ?issue = Inr (map JStr [''bug'', ''Sprint: 3 ''])" by code_simp
  have n: "build_properties_n ?sch [] [] ?issue =
    Inr [(''Task'', title_val (JStr [])),
         (''GitHub ID'', JObj [(''number'', JNull)]),
         (''Repo'', text_val (JStr ''unknown'')),
         (''Project'', text_val (JStr ''All'')),
         (''GitHub Link'', JObj [(''url'', JNull)]),
         (''Status'', text_val (JStr ''Backlog'')),
         (''Labels'', multi_val [JStr ''bug'', JStr ''Sprint: 3 '']),
         (''Sprint'', select_val (JStr ''Sprint 3'')),
         (''Assigned To'', text_val (JStr [])),
         (''Notes'', text_val (JStr []))]"
    by code_simp
  have i: "build_properties_i ?sch [] [] ?issue ''o/r'' =
    Inr [(''Task'', title_val (JStr [])),
         (''GitHub ID'', JObj [(''number'', JNull)]),
         (''Repo'', text_val (JStr ''r'')),
         (''Project'', text_val (JStr ''All'')),
         (''GitHub Link'', JObj [(''url'', JNull)]),
         (''Status'', text_val (JStr ''Backlog'')),
         (''Labels'', multi_val [JStr ''bug'', JStr ''Sprint: 3 '']),
         (''Sprint'', select_val (JStr ''Sprint 3'')),
         (''Assigned To'', text_val (JStr [])),
         (''Notes'', text_val (JStr []))]"
    by code_simp
  have vn: "sprint_value_n [''bug'', ''Sprint: 3 ''] (get_d ?issue ''milestone'' JNull) = Some ''Sprint 3''"
    by code_simp
  have vi: "sprint_value_i [''bug'', ''Sprint: 3 ''] (get_d ?issue ''milestone'' JNull) = Some ''Sprint 3''"
    by code_simp
  have e: "map_of (select_payload ?sch ''Sprint'' (JStr ''Sprint 3'')) ''Sprint''
             = Some (select_val (JStr ''Sprint 3''))"
    by code_simp
  have "map_of props ''Sprint'' = Some (select_val (JStr ''Sprint 3''))"
    if "build_properties_n ?sch [] [] ?issue = Inr props" for props
    using sprint_payload_rule [OF a, of ?sch "[]" "[]" "''o/r''"] that vn e by simp
  moreover have "map_of props ''Sprint'' = Some (select_val (JStr ''Sprint 3''))"
    if "build_properties_i ?sch [] [] ?issue ''o/r'' = Inr props" for props
    using sprint_payload_rule [OF a, of ?sch "[]" "[]" "''o/r''"] that vi e by simp
  ultimately show ?thesis using a n i by blast
qed

section \<open>The encoders' fallback\<close>

lemma notes_content_update [simp]:
  "notes_content (AList.update ''Notes'' (text_val x) props) = Inr x"
  by (simp add: notes_content_def update_conv' text_val_def)

lemma strs_of_strs [simp]: "strs_of (map JStr ls) = Inr ls"
  by (induction ls) simp_all

lemma msp_none:
  "schema_get sch p \<noteq> JStr ''multi_select'' \<Longrightarrow>
   multi_select_payload_n sch p vs = None \<and> multi_select_payload_i sch p vs = None"
  by (simp add: multi_select_payload_n_def multi_select_payload_i_def Let_def)

lemma props_head_no_labels:
  assumes "schema_get sch ''Labels'' \<noteq> JStr ''multi_select''"
  shows "map_of (props_head multi_select_payload_n sch prj issue sr title labels lm) ''Labels'' = None"
    and "map_of (props_head multi_select_payload_i sch prj issue sr title labels lm) ''Labels'' = None"
  using msp_none [OF assms, of labels]
  by (simp_all add: props_head_def update_opt_def update_conv')

lemma notes_content_props_tail:
  "notes_content (props_tail issue body X) = Inr body"
  by (simp add: notes_content_def props_tail_lookup text_val_def)

lemma strs_of_InrD: "strs_of xs = Inr ls \<Longrightarrow> xs = map JStr ls"
proof (induction xs arbitrary: ls)
  case Nil
  then show ?case by simp
next
  case (Cons x xs)
  then show ?case by (cases x) (auto simp: bind_err_eq_Inr)
qed

lemma append_labels_note_result:
  assumes "schema_get sch ''Labels'' \<noteq> JStr ''multi_select''" and "labels \<noteq> []"
    and "append_labels_note sch labels props0 = Inr mid"
    and "notes_content props0 = Inr x"
  shows "\<exists>b ls. x = JStr b \<and> labels = map JStr ls
           \<and> notes_content mid = Inr (JStr (b @ nl2 @ ''Labels: '' @ py_join '', '' ls))
           \<and> (\<forall>k. k \<noteq> ''Notes'' \<longrightarrow> map_of mid k = map_of props0 k)"
proof -
  from assms obtain s ls where
    s: "py_add_str x (nl2 @ ''Labels: '') = Inr s" and ls: "strs_of labels = Inr ls" and
    mid: "mid = AList.update ''Notes'' (text_val (JStr (s @ py_join '', '' ls))) props0"
    by (auto simp: append_labels_note_def bind_err_eq_Inr)
  from s obtain b where b: "x = JStr b" "s = b @ nl2 @ ''Labels: ''" by (cases x) auto
  from ls have l: "labels = map JStr ls" by (rule strs_of_InrD)
  have n: "notes_content mid = Inr (JStr (b @ nl2 @ ''Labels: '' @ py_join '', '' ls))"
    unfolding mid b(2) by simp
  have f: "\<forall>k. k \<noteq> ''Notes'' \<longrightarrow> map_of mid k = map_of props0 k"
    unfolding mid by (simp add: update_conv')
  from b(1) l n f show ?thesis by blast
qed

lemma append_assignee_note_n_result:
  assumes "append_assignee_note_n sch pm a mid = Inr props"
    and "notes_content mid = Inr (JStr s)"
  shows "\<exists>tail. notes_content props = Inr (JStr (s @ tail))
           \<and> (tail = [] \<or> tail = nl2 @ ''GitHub assignee: '' @ py_str a)"
  using assms
  by (auto simp: append_assignee_note_n_def bind_err_eq_Inr split: if_splits)

lemma append_assignee_note_i_result:
  assumes "append_assignee_note_i sch pm a mid = Inr props"
    and "notes_content mid = Inr (JStr s)"
  shows "\<exists>tail. notes_content props = Inr (JStr (s @ tail))
           \<and> (tail = [] \<or> tail = nl2 @ ''GitHub assignee: '' @ py_str a)"
  using assms
  by (auto simp: append_assignee_note_i_def bind_err_eq_Inr split: if_splits)

lemma labels_note_n:
  assumes sch: "schema_get sch ''Labels'' \<noteq> JStr ''multi_select''"
    and l: "issue_labels issue = Inr labels" and ne: "labels \<noteq> []"
    and b: "build_properties_n sch pm prj issue = Inr props"
  shows "map_of props ''Labels'' = None
       \<and> (\<exists>ls body tail. labels = map JStr ls
            \<and> or_empty (get_d issue ''body'' JNull) = JStr body
            \<and> notes_content props =
                 Inr (JStr (body @ nl2 @ ''Labels: '' @ py_join '', '' ls @ tail))
            \<and> (tail = [] \<or> (\<exists>a. tail = nl2 @ ''GitHub assignee: '' @ py_str a)))"
proof -
  from b obtain repo_full title labels' lm a sv x mid where
    l': "issue_labels issue = Inr labels'" and
    mid: "append_labels_note sch labels'
       (props_tail issue (or_empty (get_d issue ''body'' JNull))
         (dict_update
           (sprint_select sch sv
             (props_head multi_select_payload_n sch prj issue (short_of repo_full) title labels' lm))
           [(''Assigned To'', x)])) = Inr mid"
    and fin: "append_assignee_note_n sch pm a mid = Inr props"
    by (rule build_n_split)
  from l l' have e: "labels' = labels" by simp
  from append_labels_note_result [OF sch ne mid [unfolded e] notes_content_props_tail]
  obtain body ls where
    body: "or_empty (get_d issue ''body'' JNull) = JStr body" and ls: "labels = map JStr ls" and
    nm: "notes_content mid = Inr (JStr (body @ nl2 @ ''Labels: '' @ py_join '', '' ls))" and
    fr: "\<forall>k. k \<noteq> ''Notes'' \<longrightarrow> map_of mid k =
           map_of (props_tail issue (or_empty (get_d issue ''body'' JNull))
             (dict_update
               (sprint_select sch sv
                 (props_head multi_select_payload_n sch prj issue (short_of repo_full) title labels lm))
               [(''Assigned To'', x)])) k"
    by blast
  from append_assignee_note_n_result [OF fin nm] obtain tail where
    t: "notes_content props =
          Inr (JStr ((body @ nl2 @ ''Labels: '' @ py_join '', '' ls) @ tail))"
       "tail = [] \<or> tail = nl2 @ ''GitHub assignee: '' @ py_str a" by blast
  have "map_of props ''Labels'' = None"
    using append_assignee_note_n_frame [OF fin, of "''Labels''"] fr [rule_format, of "''Labels''"]
      props_head_no_labels(1) [OF sch]
    by (simp add: props_tail_lookup)
  moreover have "\<exists>ls body tail. labels = map JStr ls
            \<and> or_empty (get_d issue ''body'' JNull) = JStr body
            \<and> notes_content props =
                 Inr (JStr (body @ nl2 @ ''Labels: '' @ py_join '', '' ls @ tail))
            \<and> (tail = [] \<or> (\<exists>a. tail = nl2 @ ''GitHub assignee: '' @ py_str a))"
    using ls body t by (intro exI [of _ ls] exI [of _ body] exI [of _ tail]) auto
  ultimately show ?thesis by (rule conjI)
qed

lemma labels_note_i:
  assumes sch: "schema_get sch ''Labels'' \<noteq> JStr ''multi_select''"
    and l: "issue_labels issue = Inr labels" and ne: "labels \<noteq> []"
    and b: "build_properties_i sch pm prj issue repo_full = Inr props"
  shows "map_of props ''Labels'' = None
       \<and> (\<exists>ls body tail. labels = map JStr ls
            \<and> or_empty (get_d issue ''body'' JNull) = JStr body
            \<and> notes_content props =
                 Inr (JStr (body @ nl2 @ ''Labels: '' @ py_join '', '' ls @ tail))
            \<and> (tail = [] \<or> (\<exists>a. tail = nl2 @ ''GitHub assignee: '' @ py_str a)))"
proof -
  from b obtain title labels' lm a sv x mid where
    l': "issue_labels issue = Inr labels'" and
    mid: "append_labels_note sch labels'
       (props_tail issue (or_empty (get_d issue ''body'' JNull))
         (dict_update
           (sprint_select sch sv
             (props_head multi_select_payload_i sch prj issue (short_of repo_full) title labels' lm))
           [(''Assigned To'', x)])) = Inr mid"
    and fin: "append_assignee_note_i sch pm a mid = Inr props"
    by (rule build_i_split)
  from l l' have e: "labels' = labels" by simp
  from append_labels_note_result [OF sch ne mid [unfolded e] notes_content_props_tail]
  obtain body ls where
    body: "or_empty (get_d issue ''body'' JNull) = JStr body" and ls: "labels = map JStr ls" and
    nm: "notes_content mid = Inr (JStr (body @ nl2 @ ''Labels: '' @ py_join '', '' ls))" and
    fr: "\<forall>k. k \<noteq> ''Notes'' \<longrightarrow> map_of mid k =
           map_of (props_tail issue (or_empty (get_d issue ''body'' JNull))
             (dict_update
               (sprint_select sch sv
                 (props_head multi_select_payload_i sch prj issue (short_of repo_full) title labels lm))
               [(''Assigned To'', x)])) k"
    by blast
  from append_assignee_note_i_result [OF fin nm] obtain tail where
    t: "notes_content props =
          Inr (JStr ((body @ nl2 @ ''Labels: '' @ py_join '', '' ls) @ tail))"
       "tail = [] \<or> tail = nl2 @ ''GitHub assignee: '' @ py_str a" by blast
  have "map_of props ''Labels'' = None"
    using append_assignee_note_i_frame [OF fin, of "''Labels''"] fr [rule_format, of "''Labels''"]
      props_head_no_labels(2) [OF sch]
    by (simp add: props_tail_lookup)
  moreover have "\<exists>ls body tail. labels = map JStr ls
            \<and> or_empty (get_d issue ''body'' JNull) = JStr body
            \<and> notes_content props =
                 Inr (JStr (body @ nl2 @ ''Labels: '' @ py_join '', '' ls @ tail))
            \<and> (tail = [] \<or> (\<exists>a. tail = nl2 @ ''GitHub assignee: '' @ py_str a))"
    using ls body t by (intro exI [of _ ls] exI [of _ body] exI [of _ tail]) auto
  ultimately show ?thesis by (rule conjI)
qed

text \<open>
  C2 (as the code has it). When the schema kind of a property is none of
  \<^verbatim>\<open>select\<close>, \<^verbatim>\<open>multi_select\<close>, \<^verbatim>\<open>people\<close> (or the property is absent from the
  schema), the single-valued encoder and the person encoder return the free-text encoding
  of the value. The multi-valued encoder does not: for every kind other than
  \<^verbatim>\<open>multi_select\<close> it returns \<^verbatim>\<open>None\<close>, for an empty and for a non-empty list
  alike, and the field is omitted. For the labels both builders make up for it: whenever
  they return on a non-empty label list under such a schema, the payload has no Labels
  entry, the labels are strings, and the text of the notes is the body followed by a blank
  line and the line \<open>Labels: a, b\<close> (and then at most the assignee line).
\<close>

theorem encoders_fallback:
  "(schema_get sch p \<noteq> JStr ''select'' \<and> schema_get sch p \<noteq> JStr ''multi_select''
      \<and> schema_get sch p \<noteq> JStr ''people'' \<longrightarrow>
        select_payload sch p v = [(p, text_val v)]
        \<and> people_payload_n sch pm p login = Inr [(p, text_val (or_empty login))]
        \<and> people_payload_i sch pm p login = Inr [(p, text_val (or_empty login))])
   \<and> (schema_get sch p \<noteq> JStr ''multi_select'' \<longrightarrow>
        multi_select_payload_n sch p vs = None \<and> multi_select_payload_i sch p vs = None)
   \<and> (schema_get sch ''Labels'' \<noteq> JStr ''multi_select''
        \<and> issue_labels issue = Inr labels \<and> labels \<noteq> [] \<longrightarrow>
        (\<forall>props. build_properties_n sch pm prj issue = Inr props \<longrightarrow>
           map_of props ''Labels'' = None
           \<and> (\<exists>ls body tail. labels = map JStr ls
                \<and> or_empty (get_d issue ''body'' JNull) = JStr body
                \<and> notes_content props =
                     Inr (JStr (body @ nl2 @ ''Labels: '' @ py_join '', '' ls @ tail))
                \<and> (tail = [] \<or> (\<exists>a. tail = nl2 @ ''GitHub assignee: '' @ py_str a))))
        \<and> (\<forall>props. build_properties_i sch pm prj issue repo_full = Inr props \<longrightarrow>
           map_of props ''Labels'' = None
           \<and> (\<exists>ls body tail. labels = map JStr ls
                \<and> or_empty (get_d issue ''body'' JNull) = JStr body
                \<and> notes_content props =
                     Inr (JStr (body @ nl2 @ ''Labels: '' @ py_join '', '' ls @ tail))
                \<and> (tail = [] \<or> (\<exists>a. tail = nl2 @ ''GitHub assignee: '' @ py_str a)))))"
proof (intro conjI impI allI)
  assume "schema_get sch p \<noteq> JStr ''select'' \<and> schema_get sch p \<noteq> JStr ''multi_select''
      \<and> schema_get sch p \<noteq> JStr ''people''"
  then show "select_payload sch p v = [(p, text_val v)]"
    "people_payload_n sch pm p login = Inr [(p, text_val (or_empty login))]"
    "people_payload_i sch pm p login = Inr [(p, text_val (or_empty login))]"
    by (simp_all add: select_payload_def people_payload_n_def people_payload_i_def Let_def)
next
  assume "schema_get sch p \<noteq> JStr ''multi_select''"
  then show "multi_select_payload_n sch p vs = None" "multi_select_payload_i sch p vs = None"
    by (simp_all add: msp_none)
next
  fix props
  assume h: "schema_get sch ''Labels'' \<noteq> JStr ''multi_select''
        \<and> issue_labels issue = Inr labels \<and> labels \<noteq> []"
    and b: "build_properties_n sch pm prj issue = Inr props"
  from h have 1: "schema_get sch ''Labels'' \<noteq> JStr ''multi_select''"
    and 2: "issue_labels issue = Inr labels" and 3: "labels \<noteq> []" by simp_all
  from labels_note_n [OF 1 2 3 b]
  show "map_of props ''Labels'' = None"
    "\<exists>ls body tail. labels = map JStr ls
                \<and> or_empty (get_d issue ''body'' JNull) = JStr body
                \<and> notes_content props =
                     Inr (JStr (body @ nl2 @ ''Labels: '' @ py_join '', '' ls @ tail))
                \<and> (tail = [] \<or> (\<exists>a. tail = nl2 @ ''GitHub assignee: '' @ py_str a))"
    by (rule conjunct1, rule conjunct2)
next
  fix props
  assume h: "schema_get sch ''Labels'' \<noteq> JStr ''multi_select''
        \<and> issue_labels issue = Inr labels \<and> labels \<noteq> []"
    and b: "build_properties_i sch pm prj issue repo_full = Inr props"
  from h have 1: "schema_get sch ''Labels'' \<noteq> JStr ''multi_select''"
    and 2: "issue_labels issue = Inr labels" and 3: "labels \<noteq> []" by simp_all
  from labels_note_i [OF 1 2 3 b]
  show "map_of props ''Labels'' = None"
    "\<exists>ls body tail. labels = map JStr ls
                \<and> or_empty (get_d issue ''body'' JNull) = JStr body
                \<and> notes_content props =
                     Inr (JStr (body @ nl2 @ ''Labels: '' @ py_join '', '' ls @ tail))
                \<and> (tail = [] \<or> (\<exists>a. tail = nl2 @ ''GitHub assignee: '' @ py_str a))"
    by (rule conjunct1, rule conjunct2)
qed

theorem encoders_fallback_witness:
  "schema_get [(''Labels'', JStr ''rich_text'')] ''Labels'' \<noteq> JStr ''select''
   \<and> schema_get [(''Labels'', JStr ''rich_text'')] ''Labels'' \<noteq> JStr ''multi_select''
   \<and> schema_get [(''Labels'', JStr ''rich_text'')] ''Labels'' \<noteq> JStr ''people''
   \<and> select_payload [(''Labels'', JStr ''rich_text'')] ''Labels'' (JStr ''a'')
        = [(''Labels'', text_val (JStr ''a''))]
   \<and> multi_select_payload_n [(''Labels'', JStr ''rich_text'')] ''Labels'' [JStr ''a'', JStr ''b''] = None
   \<and> issue_labels
        [(''body'', JStr ''text''),
         (''labels'', JArr [JObj [(''name'', JStr ''a'')], JObj [(''name'', JStr ''b'')]])]
        = Inr [JStr ''a'', JStr ''b'']
   \<and> (\<exists>props. build_properties_n [(''Labels'', JStr ''rich_text'')] [] []
          [(''body'', JStr ''text''),
           (''labels'', JArr [JObj [(''name'', JStr ''a'')], JObj [(''name'', JStr ''b'')]])]
          = Inr props
        \<and> map_of props ''Labels'' = None
        \<and> notes_content props = Inr (JStr (''text'' @ nl2 @ ''Labels: a, b'')))
   \<and> (\<exists>props. build_properties_i [(''Labels'', JStr ''rich_text'')] [] []
          [(''body'', JStr ''text''),
           (''labels'', JArr [JObj [(''name'', JStr ''a'')], JObj [(''name'', JStr ''b'')]])]
          ''o/r'' = Inr props
        \<and> map_of props ''Labels'' = None
        \<and> notes_content props = Inr (JStr (''text'' @ nl2 @ ''Labels: a, b'')))"
proof -
  let ?sch = "[(''Labels'', JStr ''rich_text'')]"
  let ?issue = "[(''body'', JStr ''text''),
           (''labels'', JArr [JObj [(''name'', JStr ''a'')], JObj [(''name'', JStr ''b'')]])]"
  let ?n = "[(''Task'', title_val (JStr [])),
         (''GitHub ID'', JObj [(''number'', JNull)]),
         (''Repo'', text_val (JStr ''unknown'')),
         (''Project'', text_val (JStr ''All'')),
         (''GitHub Link'', JObj [(''url'', JNull)]),
         (''Status'', text_val (JStr ''Backlog'')),
         (''Assigned To'', text_val (JStr [])),
         (''Notes'', text_val (JStr (''text'' @ nl2 @ ''Labels: a, b'')))]"
  let ?i = "[(''Task'', title_val (JStr [])),
         (''GitHub ID'', JObj [(''number'', JNull)]),
         (''Repo'', text_val (JStr ''r'')),
         (''Project'', text_val (JStr ''All'')),
         (''GitHub Link'', JObj [(''url'', JNull)]),
         (''Status'', text_val (JStr ''Backlog'')),
         (''Assigned To'', text_val (JStr [])),
         (''Notes'', text_val (JStr (''text'' @ nl2 @ ''Labels: a, b'')))]"
  have a: "schema_get ?sch ''Labels'' \<noteq> JStr ''select''" by code_simp
  have b: "schema_get ?sch ''Labels'' \<noteq> JStr ''multi_select''" by code_simp
  have c: "schema_get ?sch ''Labels'' \<noteq> JStr ''people''" by code_simp
  have l: "issue_labels ?issue = Inr [JStr ''a'', JStr ''b'']" by code_simp
  have ne: "[JStr ''a'', JStr ''b''] \<noteq> []" by simp
  have hn: "build_properties_n ?sch [] [] ?issue = Inr ?n" by code_simp
  have hi: "build_properties_i ?sch [] [] ?issue ''o/r'' = Inr ?i" by code_simp
  have cn: "notes_content ?n = Inr (JStr (''text'' @ nl2 @ ''Labels: a, b''))" by code_simp
  have ci: "notes_content ?i = Inr (JStr (''text'' @ nl2 @ ''Labels: a, b''))" by code_simp
  note T = encoders_fallback
    [of ?sch "''Labels''" "JStr ''a''" "[]" JNull "[JStr ''a'', JStr ''b'']" ?issue
        "[JStr ''a'', JStr ''b'']" "[]" "''o/r''"]
  note T1 = T [THEN conjunct1, THEN mp, OF conjI [OF a conjI [OF b c]], THEN conjunct1]
  note T2 = T [THEN conjunct2, THEN conjunct1, THEN mp, OF b, THEN conjunct1]
  note T3 = T [THEN conjunct2, THEN conjunct2, THEN mp, OF conjI [OF b conjI [OF l ne]]]
  note Ln = T3 [THEN conjunct1, THEN spec, THEN mp, OF hn, THEN conjunct1]
  note Li = T3 [THEN conjunct2, THEN spec, THEN mp, OF hi, THEN conjunct1]
  have en: "\<exists>props. build_properties_n ?sch [] [] ?issue = Inr props
        \<and> map_of props ''Labels'' = None
        \<and> notes_content props = Inr (JStr (''text'' @ nl2 @ ''Labels: a, b''))"
    by (rule exI [of _ ?n]) (rule conjI [OF hn conjI [OF Ln cn]])
  have ei: "\<exists>props. build_properties_i ?sch [] [] ?issue ''o/r'' = Inr props
        \<and> map_of props ''Labels'' = None
        \<and> notes_content props = Inr (JStr (''text'' @ nl2 @ ''Labels: a, b''))"
    by (rule exI [of _ ?i]) (rule conjI [OF hi conjI [OF Li ci]])
  show ?thesis
    by (rule conjI [OF a conjI [OF b conjI [OF c conjI [OF T1 conjI [OF T2 conjI [OF l
          conjI [OF en ei]]]]]]])
qed

text \<open>
  C2 as stated fails for the multi-valued encoder: with a free-text schema kind and a
  non-empty list it returns \<^verbatim>\<open>None\<close>, not a free-text encoding.
\<close>

theorem multi_select_omitted_counterexample:
  "multi_select_payload_n [(''Labels'', JStr ''rich_text'')] ''Labels'' [JStr ''a'', JStr ''b'']
     = None"
  by code_simp

section \<open>The update payload\<close>

lemma py_item_dict:
  "py_item (JObj d) k = Inr v \<longleftrightarrow> map_of d k = Some v"
  by (simp split: option.splits)

lemma map_of_copy_select:
  "map_of (copy_select sch new_props p up) k =
     (if k = p \<and> schema_get sch p = JStr ''select'' \<and> map_of new_props p \<noteq> None
      then map_of new_props p else map_of up k)"
  by (auto simp: copy_select_def update_conv' split: option.splits)

lemma map_of_copy_labels:
  "map_of (copy_labels sch new_props up) k =
     (if k = ''Labels'' \<and> schema_get sch ''Labels'' = JStr ''multi_select''
           \<and> map_of new_props ''Labels'' \<noteq> None
      then map_of new_props ''Labels'' else map_of up k)"
  by (auto simp: copy_labels_def update_conv' get_d_def split: option.splits)

lemma map_of_set_done:
  "map_of (set_done n up) k =
     (if k = ''Status'' \<and> n = JStr ''Done'' then Some (select_val (JStr ''Done''))
      else map_of up k)"
  by (simp add: set_done_def update_conv')

lemma update_chain_lookup:
  assumes "map_of new_props ''Task'' = Some t" and "map_of new_props ''Notes'' = Some b"
  shows "map_of (set_done n
             (copy_labels sch new_props
               (copy_select sch new_props ''Sprint''
                 (copy_select sch new_props ''Priority''
                   (copy_select sch new_props ''Type''
                     (copy_select sch new_props ''Project''
                       (AList.update ''Notes'' b (AList.update ''Task'' t [])))))))) k
         = update_lookup sch new_props n k"
  unfolding map_of_set_done map_of_copy_labels map_of_copy_select update_conv' update_lookup_def
  using assms by (cases "map_of new_props k") auto

lemma update_payload_n_lookup:
  assumes "update_payload_n sch new_props = Inr up"
  shows "\<exists>n. sel_name (JObj new_props) ''Status'' JNull = Inr n
           \<and> map_of new_props ''Task'' \<noteq> None \<and> map_of new_props ''Notes'' \<noteq> None
           \<and> (\<forall>k. map_of up k = update_lookup sch new_props n k)"
proof -
  from assms obtain t b n where
    t: "map_of new_props ''Task'' = Some t" and b: "map_of new_props ''Notes'' = Some b" and
    n: "sel_name (JObj new_props) ''Status'' JNull = Inr n" and
    up: "up = set_done n
             (copy_labels sch new_props
               (copy_select sch new_props ''Sprint''
                 (copy_select sch new_props ''Priority''
                   (copy_select sch new_props ''Type''
                     (copy_select sch new_props ''Project''
                       (AList.update ''Notes'' b (AList.update ''Task'' t [])))))))"
    unfolding update_payload_n_def bind_err_eq_Inr py_item_dict by blast
  show ?thesis
    using update_chain_lookup [OF t b, of n sch] t b n unfolding up by blast
qed

lemma update_payload_i_lookup:
  assumes "update_payload_i sch new_props = Inr up"
  shows "\<exists>n. sel_name (JObj new_props) ''Status'' JNull = Inr n
           \<and> map_of new_props ''Task'' \<noteq> None \<and> map_of new_props ''Notes'' \<noteq> None
           \<and> (\<forall>k. map_of up k = update_lookup sch new_props n k)"
proof -
  from assms obtain t b n where
    t: "map_of new_props ''Task'' = Some t" and b: "map_of new_props ''Notes'' = Some b" and
    n: "sel_name (JObj new_props) ''Status'' JNull = Inr n" and
    up: "up = set_done n
             (copy_labels sch new_props
               (fold (copy_select sch new_props) [''Project'', ''Type'', ''Priority'', ''Sprint'']
                 (AList.update ''Notes'' b (AList.update ''Task'' t []))))"
    unfolding update_payload_i_def bind_err_eq_Inr py_item_dict by blast
  show ?thesis
    using update_chain_lookup [OF t b, of n sch] t b n unfolding up by simp
qed

lemma sync_issue_n_Update:
  assumes "sync_issue_n sch pm prj existing it = Update pid up"
  shows "\<exists>new_props. build_properties_n sch pm prj it = Inr new_props
           \<and> py_truthy existing \<and> properties_differ_n sch existing new_props
           \<and> update_payload_n sch new_props = Inr up"
  using assms
  by (auto simp: sync_issue_n_def split: if_splits sum.splits)

lemma sync_issue_i_Update:
  assumes "sync_issue_i sch pm prj page issue repo_full = Update pid up"
  shows "\<exists>new_props. build_properties_i sch pm prj issue repo_full = Inr new_props
           \<and> py_truthy page \<and> properties_differ_i sch page new_props
           \<and> update_payload_i sch new_props = Inr up"
  using assms
  by (auto simp: sync_issue_i_def split: if_splits sum.splits)

lemma update_lookup_restricted:
  assumes "\<forall>k. map_of up k = update_lookup sch new_props n k"
    and "sel_name (JObj new_props) ''Status'' JNull = Inr n"
  shows "fst ` set up \<subseteq>
           {''Task'', ''Notes'', ''Project'', ''Type'', ''Priority'', ''Sprint'', ''Labels'', ''Status''}
       \<and> (\<forall>p \<in> {''Project'', ''Type'', ''Priority'', ''Sprint''}.
            p \<in> fst ` set up \<longrightarrow> schema_get sch p = JStr ''select'')
       \<and> (''Labels'' \<in> fst ` set up \<longrightarrow> schema_get sch ''Labels'' = JStr ''multi_select'')
       \<and> (''Status'' \<in> fst ` set up \<longrightarrow>
            sel_name (JObj new_props) ''Status'' JNull = Inr (JStr ''Done''))
       \<and> (\<forall>k \<in> {''Assigned To'', ''Created At'', ''Updated At'', ''GitHub Link'', ''GitHub ID'', ''Repo''}.
            k \<notin> fst ` set up)"
proof -
  have keys: "k \<in> fst ` set up \<longleftrightarrow> update_lookup sch new_props n k \<noteq> None" for k
    using assms(1) by (simp add: dom_map_of_conv_image_fst [symmetric] dom_def)
  have 1: "fst ` set up \<subseteq>
           {''Task'', ''Notes'', ''Project'', ''Type'', ''Priority'', ''Sprint'', ''Labels'', ''Status''}"
  proof
    fix k assume "k \<in> fst ` set up"
    then have "update_lookup sch new_props n k \<noteq> None" by (simp add: keys)
    then show "k \<in> {''Task'', ''Notes'', ''Project'', ''Type'', ''Priority'', ''Sprint'', ''Labels'', ''Status''}"
      unfolding update_lookup_def by (auto split: if_splits)
  qed
  have 2: "\<forall>p \<in> {''Project'', ''Type'', ''Priority'', ''Sprint''}.
            p \<in> fst ` set up \<longrightarrow> schema_get sch p = JStr ''select''"
    unfolding keys update_lookup_def by (auto split: if_splits)
  have 3: "''Labels'' \<in> fst ` set up \<longrightarrow> schema_get sch ''Labels'' = JStr ''multi_select''"
    unfolding keys update_lookup_def by (auto split: if_splits)
  have 4: "''Status'' \<in> fst ` set up \<longrightarrow>
            sel_name (JObj new_props) ''Status'' JNull = Inr (JStr ''Done'')"
    unfolding keys update_lookup_def using assms(2) by (auto split: if_splits)
  have 5: "\<forall>k \<in> {''Assigned To'', ''Created At'', ''Updated At'', ''GitHub Link'', ''GitHub ID'', ''Repo''}.
            k \<notin> fst ` set up"
    unfolding keys update_lookup_def by simp
  from 1 2 3 4 5 show ?thesis by blast
qed

text \<open>
  C6. Whenever a pass decides to update (the record exists and the diff reports a
  difference), the payload handed to the update call has no keys other than Task, Notes,
  Project, Type, Priority, Sprint, Labels and Status; each of Project, Type, Priority and
  Sprint is there only under the schema kind \<^verbatim>\<open>select\<close>, Labels only under
  \<^verbatim>\<open>multi_select\<close>, Status only when the new payload's status is \<open>Done\<close>; the
  assignee, the timestamps, the url, the external id and the repo name are never there.
  This holds for \<^verbatim>\<open>sync_repo\<close> and for \<^verbatim>\<open>main\<close> of issue\_to\_notion.py.
\<close>

theorem update_payload_restricted:
  "(sync_issue_n sch pm prj existing it = Update pid up \<longrightarrow>
      (\<exists>new_props. build_properties_n sch pm prj it = Inr new_props
         \<and> properties_differ_n sch existing new_props
         \<and> fst ` set up \<subseteq>
             {''Task'', ''Notes'', ''Project'', ''Type'', ''Priority'', ''Sprint'', ''Labels'', ''Status''}
         \<and> (\<forall>p \<in> {''Project'', ''Type'', ''Priority'', ''Sprint''}.
              p \<in> fst ` set up \<longrightarrow> schema_get sch p = JStr ''select'')
         \<and> (''Labels'' \<in> fst ` set up \<longrightarrow> schema_get sch ''Labels'' = JStr ''multi_select'')
         \<and> (''Status'' \<in> fst ` set up \<longrightarrow>
              sel_name (JObj new_props) ''Status'' JNull = Inr (JStr ''Done''))
         \<and> (\<forall>k \<in> {''Assigned To'', ''Created At'', ''Updated At'', ''GitHub Link'', ''GitHub ID'', ''Repo''}.
              k \<notin> fst ` set up)))
   \<and> (sync_issue_i sch pm prj page issue repo_full = Update pid' up' \<longrightarrow>
      (\<exists>new_props. build_properties_i sch pm prj issue repo_full = Inr new_props
         \<and> properties_differ_i sch page new_props
         \<and> fst ` set up' \<subseteq>
             {''Task'', ''Notes'', ''Project'', ''Type'', ''Priority'', ''Sprint'', ''Labels'', ''Status''}
         \<and> (\<forall>p \<in> {''Project'', ''Type'', ''Priority'', ''Sprint''}.
              p \<in> fst ` set up' \<longrightarrow> schema_get sch p = JStr ''select'')
         \<and> (''Labels'' \<in> fst ` set up' \<longrightarrow> schema_get sch ''Labels'' = JStr ''multi_select'')
         \<and> (''Status'' \<in> fst ` set up' \<longrightarrow>
              sel_name (JObj new_props) ''Status'' JNull = Inr (JStr ''Done''))
         \<and> (\<forall>k \<in> {''Assigned To'', ''Created At'', ''Updated At'', ''GitHub Link'', ''GitHub ID'', ''Repo''}.
              k \<notin> fst ` set up')))"
proof (intro conjI impI)
  assume "sync_issue_n sch pm prj existing it = Update pid up"
  from sync_issue_n_Update [OF this] obtain new_props where
    b: "build_properties_n sch pm prj it = Inr new_props" and
    d: "properties_differ_n sch existing new_props" and
    u: "update_payload_n sch new_props = Inr up" by blast
  from update_payload_n_lookup [OF u] obtain n where
    n: "sel_name (JObj new_props) ''Status'' JNull = Inr n" and
    l: "\<forall>k. map_of up k = update_lookup sch new_props n k" by blast
  show "\<exists>new_props. build_properties_n sch pm prj it = Inr new_props
         \<and> properties_differ_n sch existing new_props
         \<and> fst ` set up \<subseteq>
             {''Task'', ''Notes'', ''Project'', ''Type'', ''Priority'', ''Sprint'', ''Labels'', ''Status''}
         \<and> (\<forall>p \<in> {''Project'', ''Type'', ''Priority'', ''Sprint''}.
              p \<in> fst ` set up \<longrightarrow> schema_get sch p = JStr ''select'')
         \<and> (''Labels'' \<in> fst ` set up \<longrightarrow> schema_get sch ''Labels'' = JStr ''multi_select'')
         \<and> (''Status'' \<in> fst ` set up \<longrightarrow>
              sel_name (JObj new_props) ''Status'' JNull = Inr (JStr ''Done''))
         \<and> (\<forall>k \<in> {''Assigned To'', ''Created At'', ''Updated At'', ''GitHub Link'', ''GitHub ID'', ''Repo''}.
              k \<notin> fst ` set up)"
    by (rule exI [of _ new_props])
       (rule conjI [OF b conjI [OF d update_lookup_restricted [OF l n]]])
next
  assume "sync_issue_i sch pm prj page issue repo_full = Update pid' up'"
  from sync_issue_i_Update [OF this] obtain new_props where
    b: "build_properties_i sch pm prj issue repo_full = Inr new_props" and
    d: "properties_differ_i sch page new_props" and
    u: "update_payload_i sch new_props = Inr up'" by blast
  from update_payload_i_lookup [OF u] obtain n where
    n: "sel_name (JObj new_props) ''Status'' JNull = Inr n" and
    l: "\<forall>k. map_of up' k = update_lookup sch new_props n k" by blast
  show "\<exists>new_props. build_properties_i sch pm prj issue repo_full = Inr new_props
         \<and> properties_differ_i sch page new_props
         \<and> fst ` set up' \<subseteq>
             {''Task'', ''Notes'', ''Project'', ''Type'', ''Priority'', ''Sprint'', ''Labels'', ''Status''}
         \<and> (\<forall>p \<in> {''Project'', ''Type'', ''Priority'', ''Sprint''}.
              p \<in> fst ` set up' \<longrightarrow> schema_get sch p = JStr ''select'')
         \<and> (''Labels'' \<in> fst ` set up' \<longrightarrow> schema_get sch ''Labels'' = JStr ''multi_select'')
         \<and> (''Status'' \<in> fst ` set up' \<longrightarrow>
              sel_name (JObj new_props) ''Status'' JNull = Inr (JStr ''Done''))
         \<and> (\<forall>k \<in> {''Assigned To'', ''Created At'', ''Updated At'', ''GitHub Link'', ''GitHub ID'', ''Repo''}.
              k \<notin> fst ` set up')"
    by (rule exI [of _ new_props])
       (rule conjI [OF b conjI [OF d update_lookup_restricted [OF l n]]])
qed

theorem update_payload_restricted_witness:
  "sync_issue_n ex_schema [] [] (ex_page ''Backlog'') (ex_issue ''closed'') =
     Update (JStr ''page-1'')
       [(''Task'', title_val (JStr ''Fix crash'')),
        (''Notes'', text_val (JStr [])),
        (''Project'', select_val (JStr ''All'')),
        (''Type'', select_val (JStr ''feature'')),
        (''Labels'', multi_val [JStr ''type:feature'', JStr ''priority:high'']),
        (''Status'', select_val (JStr ''Done''))]
   \<and> sync_issue_i ex_schema [] [] (ex_page ''Backlog'') (ex_issue ''closed'') ''o/r'' =
     Update (JStr ''page-1'')
       [(''Task'', title_val (JStr ''Fix crash'')),
        (''Notes'', text_val (JStr [])),
        (''Project'', select_val (JStr ''All'')),
        (''Type'', select_val (JStr ''feature'')),
        (''Labels'', multi_val [JStr ''type:feature'', JStr ''priority:high'']),
        (''Status'', select_val (JStr ''Done''))]
   \<and> (\<exists>new_props. build_properties_n ex_schema [] [] (ex_issue ''closed'') = Inr new_props
         \<and> properties_differ_n ex_schema (ex_page ''Backlog'') new_props
         \<and> sel_name (JObj new_props) ''Status'' JNull = Inr (JStr ''Done''))
   \<and> (\<exists>new_props. build_properties_i ex_schema [] [] (ex_issue ''closed'') ''o/r'' = Inr new_props
         \<and> properties_differ_i ex_schema (ex_page ''Backlog'') new_props
         \<and> sel_name (JObj new_props) ''Status'' JNull = Inr (JStr ''Done''))"
proof -
  let ?up = "[(''Task'', title_val (JStr ''Fix crash'')),
        (''Notes'', text_val (JStr [])),
        (''Project'', select_val (JStr ''All'')),
        (''Type'', select_val (JStr ''feature'')),
        (''Labels'', multi_val [JStr ''type:feature'', JStr ''priority:high'']),
        (''Status'', select_val (JStr ''Done''))]"
  have n: "sync_issue_n ex_schema [] [] (ex_page ''Backlog'') (ex_issue ''closed'') =
     Update (JStr ''page-1'') ?up"
    by code_simp
  have i: "sync_issue_i ex_schema [] [] (ex_page ''Backlog'') (ex_issue ''closed'') ''o/r'' =
     Update (JStr ''page-1'') ?up"
    by code_simp
  have s: "''Status'' \<in> fst ` set ?up" by simp
  note T = update_payload_restricted
      [of ex_schema "[]" "[]" "ex_page ''Backlog''" "ex_issue ''closed''" "JStr ''page-1''" ?up
          "ex_page ''Backlog''" "ex_issue ''closed''" "''o/r''" "JStr ''page-1''" ?up]
  from T [THEN conjunct1, THEN mp, OF n] obtain np where
    np: "build_properties_n ex_schema [] [] (ex_issue ''closed'') = Inr np"
      "properties_differ_n ex_schema (ex_page ''Backlog'') np"
      "''Status'' \<in> fst ` set ?up \<longrightarrow> sel_name (JObj np) ''Status'' JNull = Inr (JStr ''Done'')"
    by (elim exE conjE) (rule that, assumption+)
  from T [THEN conjunct2, THEN mp, OF i] obtain ip where
    ip: "build_properties_i ex_schema [] [] (ex_issue ''closed'') ''o/r'' = Inr ip"
      "properties_differ_i ex_schema (ex_page ''Backlog'') ip"
      "''Status'' \<in> fst ` set ?up \<longrightarrow> sel_name (JObj ip) ''Status'' JNull = Inr (JStr ''Done'')"
    by (elim exE conjE) (rule that, assumption+)
  have a: "\<exists>new_props. build_properties_n ex_schema [] [] (ex_issue ''closed'') = Inr new_props
         \<and> properties_differ_n ex_schema (ex_page ''Backlog'') new_props
         \<and> sel_name (JObj new_props) ''Status'' JNull = Inr (JStr ''Done'')"
    by (rule exI [of _ np]) (rule conjI [OF np(1) conjI [OF np(2) np(3) [THEN mp, OF s]]])
  have b: "\<exists>new_props. build_properties_i ex_schema [] [] (ex_issue ''closed'') ''o/r'' = Inr new_props
         \<and> properties_differ_i ex_schema (ex_page ''Backlog'') new_props
         \<and> sel_name (JObj new_props) ''Status'' JNull = Inr (JStr ''Done'')"
    by (rule exI [of _ ip]) (rule conjI [OF ip(1) conjI [OF ip(2) ip(3) [THEN mp, OF s]]])
  show ?thesis
    by (rule conjI [OF n conjI [OF i conjI [OF a b]]])
qed

section \<open>The two scripts compared\<close>

lemma or_true_check: "or_true (check c rest) \<longleftrightarrow> c \<noteq> Inr False \<or> or_true rest"
  by (cases c) (auto simp: check_def or_true_def)

lemma properties_differ_same:
  "properties_differ_i sch existing new_props = properties_differ_n sch existing new_props"
proof (cases "py_get existing ''properties'' (JObj [])")
  case (Inl e)
  then show ?thesis by (simp add: properties_differ_i_def properties_differ_n_def)
next
  case (Inr props)
  then show ?thesis
    by (simp add: properties_differ_i_def properties_differ_n_def fields_differ_n_def
          or_true_check) blast
qed

lemma multi_select_payload_same: "multi_select_payload_i = multi_select_payload_n"
  by (intro ext) (simp add: multi_select_payload_i_def multi_select_payload_n_def)

lemma ids_truthy_lookup: "ids_truthy pm \<Longrightarrow> map_of pm s = Some v \<Longrightarrow> py_truthy v"
proof -
  assume a: "ids_truthy pm" and b: "map_of pm s = Some v"
  from b have "(s, v) \<in> set pm" by (rule map_of_SomeD)
  with a show "py_truthy v" by (fastforce simp: ids_truthy_def list_all_iff)
qed

lemma people_payload_same:
  assumes "ids_truthy pm"
  shows "people_payload_i sch pm p login = people_payload_n sch pm p login"
proof (cases login)
  case (JStr s)
  then show ?thesis
    using ids_truthy_lookup [OF assms, of s]
    by (cases "map_of pm s")
       (auto simp: people_payload_i_def people_payload_n_def Let_def get_d_def)
qed (simp_all add: people_payload_i_def people_payload_n_def Let_def)

lemma append_assignee_note_same:
  assumes "ids_truthy pm"
  shows "append_assignee_note_i sch pm a props = append_assignee_note_n sch pm a props"
proof (cases a)
  case (JStr s)
  then show ?thesis
    using ids_truthy_lookup [OF assms, of s]
    by (cases "map_of pm s")
       (auto simp: append_assignee_note_i_def append_assignee_note_n_def get_d_def)
qed (simp_all add: append_assignee_note_i_def append_assignee_note_n_def)

lemma sprint_label_same:
  "\<forall>l \<in> set labels. \<not> blank_sprint l \<Longrightarrow> sprint_label_i labels = sprint_label_n labels"
proof (induction labels)
  case Nil
  show ?case by simp
next
  case (Cons l ls)
  then show ?case
    by (cases l) (auto simp: Let_def is_sprint_label_def sprint_label_value_def)
qed

lemma sprint_label_n_nonempty: "sprint_label_n labels = Inr (Some v) \<Longrightarrow> v \<noteq> []"
  by (induction labels) (auto simp: Let_def split: json.splits if_splits)

lemma sprint_same:
  assumes "\<forall>l \<in> set labels. \<not> blank_sprint l" and "title_str_or_absent ms"
  shows "sprint_i labels ms = resolve_sprint_from_issue labels ms"
proof (cases "sprint_label_n labels")
  case (Inl e)
  then show ?thesis
    by (simp add: sprint_i_def resolve_sprint_from_issue_def sprint_label_same [OF assms(1)])
next
  case (Inr r)
  show ?thesis
  proof (cases r)
    case (Some v)
    with Inr sprint_label_n_nonempty [of labels v] show ?thesis
      by (simp add: sprint_i_def resolve_sprint_from_issue_def sprint_label_same [OF assms(1)])
  next
    case None
    with Inr assms(2) show ?thesis
      by (cases ms)
         (auto simp: sprint_i_def resolve_sprint_from_issue_def sprint_label_same [OF assms(1)]
            sprint_milestone_n_def title_str_or_absent_def get_d_def Let_def
            split: option.splits json.splits)
  qed
qed

lemma build_properties_same:
  assumes repo: "issue_repo_full issue = Inr repo_full"
    and lab: "no_blank_sprint issue"
    and ms: "title_str_or_absent (get_d issue ''milestone'' JNull)"
    and pm: "ids_truthy pm"
  shows "build_properties_i sch pm prj issue repo_full = build_properties_n sch pm prj issue"
proof (cases "issue_labels issue")
  case (Inl e)
  then show ?thesis
    by (cases "py_slice200 (get_d issue ''title'' (JStr []))")
       (simp_all add: build_properties_i_def build_properties_n_def repo)
next
  case (Inr labels)
  with lab have nb: "\<forall>l \<in> set labels. \<not> blank_sprint l"
    by (simp add: no_blank_sprint_def list_all_iff)
  have sp: "sprint_i labels (get_d issue ''milestone'' JNull)
      = resolve_sprint_from_issue labels (get_d issue ''milestone'' JNull)"
    by (rule sprint_same [OF nb ms])
  show ?thesis
    unfolding build_properties_i_def build_properties_n_def
    by (simp add: repo Inr sp people_payload_same [OF pm]
          ext [OF append_assignee_note_same [OF pm]] multi_select_payload_same)
qed

text \<open>
  C9 (as the code has it). The two diff functions take the same decision on every
  existing record and every new payload. The two payload builders return the same
  result (the same payload, or the same exception) when the repository handed to the
  webhook script is the one the sweep script reads from \<^verbatim>\<open>repository_url\<close>, no label
  is a \<^verbatim>\<open>sprint:\<close> label with a blank value, the milestone's title is a string when
  present, and no id in the people map is falsy.
\<close>

theorem variants_agree:
  assumes "issue_repo_full issue = Inr repo_full"
    and "no_blank_sprint issue"
    and "title_str_or_absent (get_d issue ''milestone'' JNull)"
    and "ids_truthy pm"
  shows "build_properties_i sch pm prj issue repo_full = build_properties_n sch pm prj issue
       \<and> properties_differ_i sch existing new_props = properties_differ_n sch existing new_props"
  using build_properties_same [OF assms] properties_differ_same by simp

text \<open>
  C9 as stated fails for the builders: for a label \<^verbatim>\<open>sprint:\<close> with an empty value and a
  milestone \<open>M1\<close>, the sweep script takes the sprint from the milestone and the webhook
  script from the label, and the payloads differ.
\<close>

theorem variants_differ_counterexample:
  "resolve_sprint_from_issue [JStr ''sprint:''] (JObj [(''title'', JStr ''M1'')]) = Inr (Some ''M1'')
   \<and> sprint_i [JStr ''sprint:''] (JObj [(''title'', JStr ''M1'')]) = Inr (Some ''Sprint '')
   \<and> issue_repo_full
        [(''repository_url'', JStr ''https://api.github.com/repos/o/r''),
         (''labels'', JArr [JObj [(''name'', JStr ''sprint:'')]]),
         (''milestone'', JObj [(''title'', JStr ''M1'')])] = Inr ''o/r''
   \<and> build_properties_i ex_schema [] []
        [(''repository_url'', JStr ''https://api.github.com/repos/o/r''),
         (''labels'', JArr [JObj [(''name'', JStr ''sprint:'')]]),
         (''milestone'', JObj [(''title'', JStr ''M1'')])] ''o/r''
     \<noteq> build_properties_n ex_schema [] []
        [(''repository_url'', JStr ''https://api.github.com/repos/o/r''),
         (''labels'', JArr [JObj [(''name'', JStr ''sprint:'')]]),
         (''milestone'', JObj [(''title'', JStr ''M1'')])]"
  by code_simp

theorem variants_agree_witness:
  "issue_repo_full (ex_issue ''closed'') = Inr ''o/r''
   \<and> no_blank_sprint (ex_issue ''closed'')
   \<and> title_str_or_absent (get_d (ex_issue ''closed'') ''milestone'' JNull)
   \<and> ids_truthy [(''bob'', JStr ''user-1'')]
   \<and> build_properties_i ex_schema [(''bob'', JStr ''user-1'')] [] (ex_issue ''closed'') ''o/r''
       = build_properties_n ex_schema [(''bob'', JStr ''user-1'')] [] (ex_issue ''closed'')
   \<and> properties_differ_i ex_schema (ex_page ''Done'') []
       = properties_differ_n ex_schema (ex_page ''Done'') []"
proof -
  have a: "issue_repo_full (ex_issue ''closed'') = Inr ''o/r''" by code_simp
  have b: "no_blank_sprint (ex_issue ''closed'')" by code_simp
  have c: "title_str_or_absent (get_d (ex_issue ''closed'') ''milestone'' JNull)" by code_simp
  have d: "ids_truthy [(''bob'', JStr ''user-1'')]" by code_simp
  from variants_agree [OF a b c d, of ex_schema "[]" "ex_page ''Done''" "[]"] a b c d
  show ?thesis by (intro conjI) (erule conjunct1 conjunct2 | assumption)+
qed

section \<open>Status never leaves Done\<close>

lemma map_of_rev_distinct:
  "distinct (map fst xs) \<Longrightarrow> map_of (rev xs) k = map_of xs k"
proof (induction xs)
  case Nil
  show ?case by simp
next
  case (Cons x xs)
  then have ih: "map_of (rev xs) k = map_of xs k" by simp
  from Cons.prems have "fst x \<notin> fst ` set xs" by simp
  then have none: "map_of xs (fst x) = None" by (simp add: map_of_eq_None_iff)
  show ?case
  proof (cases "k = fst x")
    case True
    with ih none show ?thesis by (simp add: map_add_def)
  next
    case False
    with ih show ?thesis by (simp add: map_add_def split: option.splits)
  qed
qed

lemma map_of_dict_update:
  "distinct (map fst d) \<Longrightarrow> map_of (dict_update props d) k =
     (case map_of d k of Some v \<Rightarrow> Some v | None \<Rightarrow> map_of props k)"
  by (simp add: dict_update_def map_of_fold_update map_add_def map_of_rev_distinct)

lemma distinct_copy_select:
  "distinct (map fst up) \<Longrightarrow> distinct (map fst (copy_select sch new_props p up))"
  by (simp add: copy_select_def distinct_update split: option.splits)

lemma distinct_copy_labels:
  "distinct (map fst up) \<Longrightarrow> distinct (map fst (copy_labels sch new_props up))"
  by (simp add: copy_labels_def distinct_update)

lemma distinct_set_done:
  "distinct (map fst up) \<Longrightarrow> distinct (map fst (set_done n up))"
  by (simp add: set_done_def distinct_update)

lemma update_payload_n_distinct:
  assumes "update_payload_n sch new_props = Inr up"
  shows "distinct (map fst up)"
proof -
  from assms obtain t b n where
    up: "up = set_done n
             (copy_labels sch new_props
               (copy_select sch new_props ''Sprint''
                 (copy_select sch new_props ''Priority''
                   (copy_select sch new_props ''Type''
                     (copy_select sch new_props ''Project''
                       (AList.update ''Notes'' b (AList.update ''Task'' t [])))))))"
    unfolding update_payload_n_def bind_err_eq_Inr by blast
  show ?thesis
    unfolding up
    by (intro distinct_set_done distinct_copy_labels distinct_copy_select distinct_update) simp
qed

lemma update_status_entry:
  assumes "update_payload_n sch new_props = Inr up"
  shows "map_of up ''Status'' =
           (if sel_name (JObj new_props) ''Status'' JNull = Inr (JStr ''Done'')
            then Some (select_val (JStr ''Done'')) else None)"
proof -
  from update_payload_n_lookup [OF assms] obtain n where
    n: "sel_name (JObj new_props) ''Status'' JNull = Inr n" and
    l: "\<forall>k. map_of up k = update_lookup sch new_props n k" by blast
  from l have "map_of up ''Status'' = update_lookup sch new_props n ''Status''" by (rule spec)
  then show ?thesis by (simp add: update_lookup_def n)
qed

lemma sel_name_select_val [simp]:
  "sel_name (JObj props) p dflt =
     (case map_of props p of
        None \<Rightarrow> Inr dflt
      | Some v \<Rightarrow> bind_err (py_get v ''select'' (JObj [])) (\<lambda>s. py_get s ''name'' dflt))"
  by (simp add: sel_name_def get_d_def split: option.splits)

lemma page_status_DoneD:
  assumes "page_status page = Inr (JStr ''Done'')"
  obtains kvs props where "page = JObj kvs" "map_of kvs ''properties'' = Some (JObj props)"
    "sel_name (JObj props) ''Status'' (JStr []) = Inr (JStr ''Done'')"
proof (cases page)
  case (JObj kvs)
  show ?thesis
  proof (cases "map_of kvs ''properties''")
    case None
    with JObj assms show ?thesis by (simp add: page_status_def get_d_def)
  next
    case (Some v)
    with JObj assms obtain props where "v = JObj props"
      by (cases v) (simp_all add: page_status_def get_d_def sel_name_def)
    with JObj Some assms that show ?thesis
      by (simp add: page_status_def get_d_def del: sel_name_select_val)
  qed
qed (use assms in \<open>simp_all add: page_status_def\<close>)

lemma apply_update_keeps_done:
  assumes st: "page_status page = Inr (JStr ''Done'')"
    and up: "update_payload_n sch new_props = Inr up"
  shows "page_status (apply_update page up) = Inr (JStr ''Done'')"
proof -
  from st obtain kvs props where p: "page = JObj kvs"
    "map_of kvs ''properties'' = Some (JObj props)"
    "sel_name (JObj props) ''Status'' (JStr []) = Inr (JStr ''Done'')"
    by (rule page_status_DoneD)
  have d: "distinct (map fst up)" by (rule update_payload_n_distinct [OF up])
  have "sel_name (JObj (dict_update props up)) ''Status'' (JStr []) = Inr (JStr ''Done'')"
    using p(3) update_status_entry [OF up]
    by (simp add: map_of_dict_update [OF d] select_val_def get_d_def split: if_splits)
  then show ?thesis
    unfolding p(1) apply_update_def
    by (simp add: p(2) page_status_def get_d_def update_conv' del: sel_name_select_val)
qed

lemma dest_after_keeps_done:
  assumes "page_status page = Inr (JStr ''Done'')"
  shows "page_status (dest_after (sync_issue_n sch pm prj page it) page) = Inr (JStr ''Done'')"
proof (cases "sync_issue_n sch pm prj page it")
  case (Update pid up)
  from sync_issue_n_Update [OF this] obtain new_props where
    "update_payload_n sch new_props = Inr up" by blast
  from apply_update_keeps_done [OF assms this] Update show ?thesis
    by (simp add: dest_after_def)
qed (simp_all add: dest_after_def assms)

lemma sync_runs_keep_done:
  "page_status page = Inr (JStr ''Done'') \<Longrightarrow>
   page_status (sync_runs_n sch pm prj page its) = Inr (JStr ''Done'')"
  by (induction its arbitrary: page) (simp_all add: dest_after_keeps_done)

lemma or_true_simps [simp]: "or_true (Inl e) = True" "or_true (Inr b) = b"
  by (simp_all add: or_true_def)

lemma or_true_fields:
  "or_true (fields_differ_n sch props new rest) \<longleftrightarrow>
     or_true (fields_differ_n sch props new (Inr False)) \<or> or_true rest"
  by (simp add: fields_differ_n_def or_true_check) blast

lemma status_rule:
  assumes "py_get existing ''properties'' (JObj []) = Inr props"
    and "sel_name props ''Status'' (JStr []) = Inr e"
    and "sel_name (JObj new_props) ''Status'' (JStr []) = Inr n"
  shows "properties_differ_n sch existing new_props \<longleftrightarrow>
           or_true (fields_differ_n sch props (JObj new_props) (Inr False))
           \<or> (n = JStr ''Done'' \<and> e \<noteq> JStr ''Done'')"
  unfolding properties_differ_n_def assms(1) bind_err_simps
  by (subst or_true_fields)
     (simp add: or_true_check status_differs_def assms(2,3) del: sel_name_select_val)

text \<open>
  C4. The diff counts the status as a difference exactly when the new status is
  \<open>Done\<close> and the existing one is not: with both statuses readable, the verdict is
  that of the other comparisons, or that condition. The update payload of
  \<^verbatim>\<open>sync_repo\<close> holds a Status entry exactly when the new status is \<open>Done\<close>, and the
  entry is \<open>Done\<close>. Hence, over any sequence of runs on versions of the issue, reopened
  ones included, a page whose status is \<open>Done\<close> keeps it.
\<close>

theorem status_stays_done:
  "(py_get existing ''properties'' (JObj []) = Inr props
      \<and> sel_name props ''Status'' (JStr []) = Inr e
      \<and> sel_name (JObj new_props) ''Status'' (JStr []) = Inr n \<longrightarrow>
      (properties_differ_n sch existing new_props \<longleftrightarrow>
         or_true (fields_differ_n sch props (JObj new_props) (Inr False))
         \<or> (n = JStr ''Done'' \<and> e \<noteq> JStr ''Done'')))
   \<and> (update_payload_n sch new_props = Inr up \<longrightarrow>
        map_of up ''Status'' =
          (if sel_name (JObj new_props) ''Status'' JNull = Inr (JStr ''Done'')
           then Some (select_val (JStr ''Done'')) else None))
   \<and> (page_status page = Inr (JStr ''Done'') \<longrightarrow>
        page_status (sync_runs_n sch pm prj page its) = Inr (JStr ''Done''))"
  using status_rule [of existing props e new_props n sch]
    update_status_entry [of sch new_props up]
    sync_runs_keep_done [of page sch pm prj its]
  by (simp del: sel_name_select_val)

theorem status_stays_done_witness:
  "page_status (ex_page ''Done'') = Inr (JStr ''Done'')
   \<and> sync_issue_n ex_schema [] [] (ex_page ''Done'')
         (AList.update ''title'' (JStr ''Fix the crash'') (ex_issue ''open'')) =
       Update (JStr ''page-1'')
         [(''Task'', title_val (JStr ''Fix the crash'')),
          (''Notes'', text_val (JStr [])),
          (''Project'', select_val (JStr ''All'')),
          (''Type'', select_val (JStr ''feature'')),
          (''Labels'', multi_val [JStr ''type:feature'', JStr ''priority:high''])]
   \<and> page_status
         (sync_runs_n ex_schema [] [] (ex_page ''Done'')
            [AList.update ''title'' (JStr ''Fix the crash'') (ex_issue ''open''),
             ex_issue ''closed''])
       = Inr (JStr ''Done'')
   \<and> (properties_differ_n ex_schema (ex_page ''Done'') [(''Status'', select_val (JStr ''Backlog''))]
        \<longleftrightarrow> or_true (fields_differ_n ex_schema
                (JObj [(''Task'', title_val (JStr ''Fix crash'')),
                       (''Project'', select_val (JStr ''All'')),
                       (''Type'', select_val (JStr ''feature'')),
                       (''Labels'', multi_val [JStr ''type:feature'', JStr ''priority:high'']),
                       (''Status'', select_val (JStr ''Done''))])
                (JObj [(''Status'', select_val (JStr ''Backlog''))]) (Inr False)))
   \<and> map_of [(''Task'', title_val (JStr ''t'')), (''Notes'', text_val (JStr []))] ''Status'' = None"
proof -
  let ?props = "JObj [(''Task'', title_val (JStr ''Fix crash'')),
                       (''Project'', select_val (JStr ''All'')),
                       (''Type'', select_val (JStr ''feature'')),
                       (''Labels'', multi_val [JStr ''type:feature'', JStr ''priority:high'']),
                       (''Status'', select_val (JStr ''Done''))]"
  let ?new = "[(''Status'', select_val (JStr ''Backlog''))]"
  let ?new2 = "[(''Task'', title_val (JStr ''t'')), (''Notes'', text_val (JStr [])),
                (''Status'', select_val (JStr ''Backlog''))]"
  let ?up = "[(''Task'', title_val (JStr ''t'')), (''Notes'', text_val (JStr []))]"
  let ?its = "[AList.update ''title'' (JStr ''Fix the crash'') (ex_issue ''open''),
               ex_issue ''closed'']"
  have p: "page_status (ex_page ''Done'') = Inr (JStr ''Done'')" by code_simp
  have a: "py_get (ex_page ''Done'') ''properties'' (JObj []) = Inr ?props" by code_simp
  have b: "sel_name ?props ''Status'' (JStr []) = Inr (JStr ''Done'')" by code_simp
  have c: "sel_name (JObj ?new) ''Status'' (JStr []) = Inr (JStr ''Backlog'')" by code_simp
  have u: "update_payload_n ex_schema ?new2 = Inr ?up" by code_simp
  have n: "sel_name (JObj ?new2) ''Status'' JNull \<noteq> Inr (JStr ''Done'')" by code_simp
  have s: "sync_issue_n ex_schema [] [] (ex_page ''Done'')
         (AList.update ''title'' (JStr ''Fix the crash'') (ex_issue ''open'')) =
       Update (JStr ''page-1'')
         [(''Task'', title_val (JStr ''Fix the crash'')),
          (''Notes'', text_val (JStr [])),
          (''Project'', select_val (JStr ''All'')),
          (''Type'', select_val (JStr ''feature'')),
          (''Labels'', multi_val [JStr ''type:feature'', JStr ''priority:high''])]"
    by code_simp
  note T1 = status_stays_done
    [of "ex_page ''Done''" ?props "JStr ''Done''" ?new "JStr ''Backlog''" ex_schema ?up
        "ex_page ''Done''" "[]" "[]" ?its, THEN conjunct1, THEN mp, OF conjI [OF a conjI [OF b c]]]
  note T2 = status_stays_done
    [of "ex_page ''Done''" ?props "JStr ''Done''" ?new2 "JStr ''Backlog''" ex_schema ?up
        "ex_page ''Done''" "[]" "[]" ?its, THEN conjunct2, THEN conjunct1, THEN mp, OF u]
  note T3 = status_stays_done
    [of "ex_page ''Done''" ?props "JStr ''Done''" ?new "JStr ''Backlog''" ex_schema ?up
        "ex_page ''Done''" "[]" "[]" ?its, THEN conjunct2, THEN conjunct2, THEN mp, OF p]
  have t1: "properties_differ_n ex_schema (ex_page ''Done'') ?new
        \<longleftrightarrow> or_true (fields_differ_n ex_schema ?props (JObj ?new) (Inr False))"
    using T1 by simp
  have t2: "map_of ?up ''Status'' = None"
    using T2 n by (simp only: if_False)
  show ?thesis
    by (rule conjI [OF p conjI [OF s conjI [OF T3 conjI [OF t1 t2]]]])
qed

section \<open>When the builders return\<close>

lemma repo_full_total:
  "str_or_falsy (get_d issue ''repository_url'' (JStr [])) \<Longrightarrow>
   \<exists>r. issue_repo_full issue = Inr r"
  by (cases "get_d issue ''repository_url'' (JStr [])")
     (auto simp: issue_repo_full_def Let_def)

lemma slice_total: "is_str v \<Longrightarrow> \<exists>t. py_slice200 v = Inr t"
  by (cases v) simp_all

lemma names_of_total:
  "list_all label_ok xs \<Longrightarrow> \<exists>ls. names_of xs = Inr (map JStr ls)"
proof (induction xs)
  case Nil
  show ?case by simp
next
  case (Cons x xs)
  then obtain ls where ls: "names_of xs = Inr (map JStr ls)" by auto
  from Cons.prems obtain d s where "x = JObj d" "map_of d ''name'' = Some (JStr s)"
    by (cases x) (auto split: option.splits json.splits)
  then have "names_of (x # xs) = Inr (map JStr (s # ls))"
    by (simp add: ls get_d_def)
  then show ?case by blast
qed

lemma labels_total:
  "labels_ok (get_d issue ''labels'' JNull) \<Longrightarrow> \<exists>ls. issue_labels issue = Inr (map JStr ls)"
proof (cases "get_d issue ''labels'' JNull")
  case (JArr xs)
  assume "labels_ok (get_d issue ''labels'' JNull)"
  with JArr have "list_all label_ok xs" by simp
  from names_of_total [OF this] obtain ls where ls: "names_of xs = Inr (map JStr ls)" by blast
  have g: "get_d issue ''labels'' (JArr []) = JArr xs"
    using JArr by (auto simp: get_d_def split: option.splits)
  show ?thesis
  proof (cases "xs = []")
    case True
    with JArr have "issue_labels issue = Inr (map JStr [])" by (simp add: issue_labels_def)
    then show ?thesis by blast
  next
    case False
    with JArr g ls show ?thesis by (auto simp: issue_labels_def)
  qed
qed (auto simp: issue_labels_def intro: exI [of _ "[]"])

lemma assignee_total:
  "assignee_ok (get_d issue ''assignee'' JNull) \<Longrightarrow>
   \<exists>a. issue_assignee issue = Inr a \<and> (a = JNull \<or> (\<exists>s. a = JStr s))"
proof (cases "get_d issue ''assignee'' JNull")
  case (JObj d)
  assume ok: "assignee_ok (get_d issue ''assignee'' JNull)"
  have g: "get_d issue ''assignee'' (JObj []) = JObj d"
    using JObj by (auto simp: get_d_def split: option.splits)
  from ok JObj show ?thesis
    by (auto simp: issue_assignee_def g get_d_def split: option.splits json.splits)
qed (auto simp: issue_assignee_def)

lemma sprint_milestone_n_total:
  "milestone_ok ms \<Longrightarrow> \<exists>r. sprint_milestone_n ms = Inr r"
  by (cases ms)
     (auto simp: sprint_milestone_n_def get_d_def Let_def split: option.splits json.splits)

lemma resolve_sprint_total:
  "milestone_ok ms \<Longrightarrow> \<exists>r. resolve_sprint_from_issue (map JStr ls) ms = Inr r"
  using sprint_milestone_n_total [of ms]
  by (auto simp: resolve_sprint_from_issue_def sprint_label_n_strs split: option.splits)

lemma sprint_i_total:
  "milestone_ok ms \<Longrightarrow> \<exists>r. sprint_i (map JStr ls) ms = Inr r"
  by (cases ms)
     (auto simp: sprint_i_def sprint_label_i_strs get_d_def Let_def
           split: option.splits json.splits)

lemma people_n_total:
  "a = JNull \<or> (\<exists>s. a = JStr s) \<Longrightarrow> \<exists>pp. people_payload_n sch pm p a = Inr pp"
  by (auto simp: people_payload_n_def Let_def)

lemma people_i_total:
  "a = JNull \<or> (\<exists>s. a = JStr s) \<Longrightarrow> \<exists>pp. people_payload_i sch pm p a = Inr pp"
  by (auto simp: people_payload_i_def Let_def)

lemma notes_content_lookup:
  "map_of props ''Notes'' = Some (text_val x) \<Longrightarrow> notes_content props = Inr x"
  by (simp add: notes_content_def text_val_def)

lemma or_empty_str: "str_or_falsy v \<Longrightarrow> \<exists>b. or_empty v = JStr b"
  by (cases v) (auto simp: or_empty_def)

lemma append_labels_total:
  assumes "notes_content props = Inr (JStr b)"
  shows "\<exists>props' b'. append_labels_note sch (map JStr ls) props = Inr props'
           \<and> notes_content props' = Inr (JStr b')"
  using assms by (auto simp: append_labels_note_def)

lemma append_assignee_n_total:
  assumes "notes_content props = Inr (JStr b)" and "a = JNull \<or> (\<exists>s. a = JStr s)"
  shows "\<exists>props'. append_assignee_note_n sch pm a props = Inr props'"
  using assms by (auto simp: append_assignee_note_n_def)

lemma append_assignee_i_total:
  assumes "notes_content props = Inr (JStr b)" and "a = JNull \<or> (\<exists>s. a = JStr s)"
  shows "\<exists>props'. append_assignee_note_i sch pm a props = Inr props'"
  using assms by (auto simp: append_assignee_note_i_def)

text \<open>
  C3 (as the code has it). On every record with the shape GitHub gives it, fields
  missing or null as GitHub may leave them, both builders return a payload, for every
  schema and every configuration map. Outside that shape they can raise: a null title
  and a label without a name are both TypeErrors.
\<close>

theorem build_properties_total:
  assumes "github_typed issue"
  shows "(\<exists>props. build_properties_n sch pm prj issue = Inr props)
       \<and> (\<exists>props. build_properties_i sch pm prj issue repo_full = Inr props)"
proof -
  from assms have
    r: "str_or_falsy (get_d issue ''repository_url'' (JStr []))" and
    t: "is_str (get_d issue ''title'' (JStr []))" and
    b: "str_or_falsy (get_d issue ''body'' JNull)" and
    l: "labels_ok (get_d issue ''labels'' JNull)" and
    a: "assignee_ok (get_d issue ''assignee'' JNull)" and
    m: "milestone_ok (get_d issue ''milestone'' JNull)"
    by (simp_all add: github_typed_def)
  from repo_full_total [OF r] obtain rf where rf: "issue_repo_full issue = Inr rf" by blast
  from slice_total [OF t] obtain title where
    title: "py_slice200 (get_d issue ''title'' (JStr [])) = Inr title" by blast
  from labels_total [OF l] obtain ls where ls: "issue_labels issue = Inr (map JStr ls)" by blast
  obtain lm where lm: "parse_label_map (map JStr ls) = Inr lm"
    by (simp add: parse_label_map_def parse_label_loop_strs)
  from assignee_total [OF a] obtain ga where
    ga: "issue_assignee issue = Inr ga" and sc: "ga = JNull \<or> (\<exists>s. ga = JStr s)" by blast
  from or_empty_str [OF b] obtain body where body: "or_empty (get_d issue ''body'' JNull) = JStr body"
    by blast
  have nc: "notes_content (props_tail issue (JStr body) X) = Inr (JStr body)" for X
    by (rule notes_content_lookup) (simp add: props_tail_lookup)
  have n: "\<exists>props. build_properties_n sch pm prj issue = Inr props"
  proof -
    from resolve_sprint_total [OF m] obtain sv where
      sv: "resolve_sprint_from_issue (map JStr ls) (get_d issue ''milestone'' JNull) = Inr sv"
      by blast
    from people_n_total [OF sc] obtain pp where
      pp: "people_payload_n sch pm ''Assigned To'' ga = Inr pp" by blast
    from append_labels_total [OF nc] obtain mid b' where
      mid: "append_labels_note sch (map JStr ls)
              (props_tail issue (JStr body)
                (dict_update
                  (sprint_select sch sv
                    (props_head multi_select_payload_n sch prj issue (short_of rf) title
                       (map JStr ls) lm))
                  pp)) = Inr mid" and
      nm: "notes_content mid = Inr (JStr b')" by blast
    from append_assignee_n_total [OF nm sc] obtain props where
      "append_assignee_note_n sch pm ga mid = Inr props" by blast
    then have "build_properties_n sch pm prj issue = Inr props"
      by (simp add: build_properties_n_def rf title ls lm ga sv pp body mid)
    then show ?thesis by blast
  qed
  have i: "\<exists>props. build_properties_i sch pm prj issue repo_full = Inr props"
  proof -
    from sprint_i_total [OF m] obtain sv where
      sv: "sprint_i (map JStr ls) (get_d issue ''milestone'' JNull) = Inr sv"
      by blast
    from people_i_total [OF sc] obtain pp where
      pp: "people_payload_i sch pm ''Assigned To'' ga = Inr pp" by blast
    from append_labels_total [OF nc] obtain mid b' where
      mid: "append_labels_note sch (map JStr ls)
              (props_tail issue (JStr body)
                (dict_update
                  (sprint_select sch sv
                    (props_head multi_select_payload_i sch prj issue (short_of repo_full) title
                       (map JStr ls) lm))
                  pp)) = Inr mid" and
      nm: "notes_content mid = Inr (JStr b')" by blast
    from append_assignee_i_total [OF nm sc] obtain props where
      "append_assignee_note_i sch pm ga mid = Inr props" by blast
    then have "build_properties_i sch pm prj issue repo_full = Inr props"
      by (simp add: build_properties_i_def title ls lm ga sv pp body mid)
    then show ?thesis by blast
  qed
  from n i show ?thesis by (rule conjI)
qed

theorem build_properties_total_witness:
  "github_typed [(''id'', JNum 101), (''body'', JNull), (''assignee'', JNull), (''milestone'', JNull)]
   \<and> (\<exists>props. build_properties_n ex_schema [] []
          [(''id'', JNum 101), (''body'', JNull), (''assignee'', JNull), (''milestone'', JNull)]
          = Inr props)
   \<and> (\<exists>props. build_properties_i ex_schema [] []
          [(''id'', JNum 101), (''body'', JNull), (''assignee'', JNull), (''milestone'', JNull)]
          ''o/r'' = Inr props)"
proof -
  have g: "github_typed
      [(''id'', JNum 101), (''body'', JNull), (''assignee'', JNull), (''milestone'', JNull)]"
    by code_simp
  from build_properties_total [OF g, of ex_schema "[]" "[]" "''o/r''"] g
  show ?thesis by (rule conjI [rotated])
qed

text \<open>
  C3 as stated fails: a record with a null title, and a record with a label entry that
  has no name, make both builders raise TypeError.
\<close>

theorem build_properties_raises_counterexample:
  "build_properties_n ex_schema [] [] [(''id'', JNum 101), (''title'', JNull)] = Inl TypeError
   \<and> build_properties_i ex_schema [] [] [(''id'', JNum 101), (''title'', JNull)] ''o/r''
       = Inl TypeError
   \<and> build_properties_n ex_schema [] []
        [(''id'', JNum 101), (''title'', JStr ''Fix crash''), (''labels'', JArr [JObj []])]
       = Inl TypeError
   \<and> build_properties_i ex_schema [] []
        [(''id'', JNum 101), (''title'', JStr ''Fix crash''), (''labels'', JArr [JObj []])] ''o/r''
       = Inl TypeError"
  by code_simp

end
